theory Spec2Isabelle
  imports Main "HOL-Library.Multiset" "HOL-Library.Char_ord" "HOL-Library.List_Lexorder"
begin

section \<open>Visual Studio toolset discovery (toolsrc/src/vcpkg/visualstudio.cpp)\<close>

text \<open>
  The file enumerates Visual Studio instances, ranks them preferred-first and resolves
  each ranked instance into zero, one or two toolsets. Everything it calls on the
  outside (path arithmetic, the filesystem, process execution, the environment, the
  string-range helpers) is a parameter of the model: a record of functions that is
  passed to every definition. The path type \<open>'p\<close> stays abstract.
\<close>

subsection \<open>External capabilities\<close>

text \<open>
  \<open>fs::path\<close>: \<open>slash\<close> is \<open>operator/\<close> with a string on the right,
  \<open>parent_path\<close>, \<open>filename\<close> and \<open>u8string\<close> are the member functions,
  \<open>from_string\<close> is the constructor \<open>fs::path{s}\<close>.
\<close>

record 'p fs_path =
  slash :: "'p \<Rightarrow> string \<Rightarrow> 'p"
  parent_path :: "'p \<Rightarrow> 'p"
  filename :: "'p \<Rightarrow> string"
  u8string :: "'p \<Rightarrow> string"
  from_string :: "string \<Rightarrow> 'p"

text \<open>\<open>a / "x" / "y" / "z"\<close> associates to the left.\<close>

definition path_join :: "'p fs_path \<Rightarrow> 'p \<Rightarrow> string list \<Rightarrow> 'p" where
  "path_join P p ss = foldl (slash P) p ss"

text \<open>\<open>Files::Filesystem\<close>: the three probes the file uses, all read-only.\<close>

record 'p Filesystem =
  exists :: "'p \<Rightarrow> bool"
  is_directory :: "'p \<Rightarrow> bool"
  get_files_non_recursive :: "'p \<Rightarrow> 'p list"

text \<open>\<open>captured_output\<close> is the field \<open>output\<close> of the source.\<close>

record ExitCodeAndOutput =
  exit_code :: int
  captured_output :: string

text \<open>The \<open>System::\<close> functions the enumerator calls.\<close>

record 'p System =
  get_program_files_32_bit :: "'p option"
  cmd_execute_and_capture_output :: "string \<Rightarrow> ExitCodeAndOutput"
  get_environment_variable :: "string \<Rightarrow> string option"

text \<open>
  The ways the process ends without returning: \<open>Checks::exit_fail\<close>,
  \<open>Checks::check_exit\<close> with its message, \<open>Checks::unreachable\<close>, and
  \<open>value_or_exit\<close> on an empty optional.
\<close>

datatype fatal = Exit_Fail | Check_Exit string | Unreachable | Value_Or_Exit

text \<open>
  \<open>StringRange\<close>: a range is modelled by the text it covers. The two single-result
  finders check their count and can end the process.
\<close>

record StringRange =
  find_all_enclosed :: "string \<Rightarrow> string \<Rightarrow> string \<Rightarrow> string list"
  find_at_most_one_enclosed :: "string \<Rightarrow> string \<Rightarrow> string \<Rightarrow> fatal + string option"
  find_exactly_one_enclosed :: "string \<Rightarrow> string \<Rightarrow> string \<Rightarrow> fatal + string"

subsection \<open>Data model\<close>

datatype ReleaseType = STABLE | PRERELEASE | LEGACY

record 'p VisualStudioInstance =
  root_path :: 'p
  version :: string
  release_type :: ReleaseType

text \<open>\<open>version.substr(0, 2)\<close>\<close>

definition major_version :: "'p VisualStudioInstance \<Rightarrow> string" where
  "major_version i = take 2 (version i)"

fun get_preference_weight :: "ReleaseType \<Rightarrow> int" where
  "get_preference_weight STABLE = 3"
| "get_preference_weight PRERELEASE = 2"
| "get_preference_weight LEGACY = 1"

text \<open>\<open>std::string\<close>'s \<open>operator>\<close> is the lexicographic order on the bytes.\<close>

definition preferred_first_comparator ::
  "'p VisualStudioInstance \<Rightarrow> 'p VisualStudioInstance \<Rightarrow> bool" where
  "preferred_first_comparator left right =
     (if release_type left \<noteq> release_type right
      then get_preference_weight (release_type left) > get_preference_weight (release_type right)
      else version left > version right)"

datatype CPUArchitecture = X86 | X64 | ARM | ARM64

record ToolsetArchOption =
  name :: string
  host_arch :: CPUArchitecture
  target_arch :: CPUArchitecture

text \<open>
  \<open>Toolset\<close>, in the order of its aggregate initialisers: root path, dumpbin path,
  vcvarsall path, vcvarsall options, version tag, supported architectures.
\<close>

record 'p Toolset =
  visual_studio_root_path :: 'p
  dumpbin :: 'p
  vcvarsall :: 'p
  vcvarsall_options :: "string list"
  toolset_version :: string
  supported_architectures :: "ToolsetArchOption list"

definition V_120 :: string where "V_120 = ''v120''"
definition V_140 :: string where "V_140 = ''v140''"
definition V_141 :: string where "V_141 = ''v141''"

subsection \<open>Sorting\<close>

text \<open>
  Modelled from the spec: the constructor of \<open>SortedVector\<close> (vcpkg/base/sortedvector.h)
  is not among the sources. The spec says of the ranking: "Sort is stable: instances equal
  under the comparator retain their relative discovery order." The model is the stable
  insertion sort by the given comparator.
\<close>

fun insert_sorted :: "('a \<Rightarrow> 'a \<Rightarrow> bool) \<Rightarrow> 'a \<Rightarrow> 'a list \<Rightarrow> 'a list" where
  "insert_sorted cmp x [] = [x]"
| "insert_sorted cmp x (y # ys) =
     (if cmp y x then y # insert_sorted cmp x ys else x # y # ys)"

definition SortedVector :: "'a list \<Rightarrow> ('a \<Rightarrow> 'a \<Rightarrow> bool) \<Rightarrow> 'a list" where
  "SortedVector v cmp = foldr (insert_sorted cmp) v []"

text \<open>
  Modelled from the spec: \<open>Util::unstable_keep_if\<close> (vcpkg/base/util.h) is not among the
  sources. The spec says "keep only directories"; the order it leaves is immaterial,
  since the result is sorted next.
\<close>

definition unstable_keep_if :: "('a \<Rightarrow> bool) \<Rightarrow> 'a list \<Rightarrow> 'a list" where
  "unstable_keep_if pred v = filter pred v"

text \<open>
  The toolchain-version subdirectories of an instance, latest first: list
  \<open>VC/Tools/MSVC\<close>, keep the directories, \<open>std::sort\<close> by file name descending.
  \<open>std::sort\<close> leaves the order of entries with equal names open; the entries of one
  directory have different names, and the model sorts by insertion.
\<close>

definition msvc_subdirectories :: "'p fs_path \<Rightarrow> 'p Filesystem \<Rightarrow> 'p \<Rightarrow> 'p list" where
  "msvc_subdirectories P fs vc_dir =
     (let msvc_path = path_join P vc_dir [''Tools'', ''MSVC''];
          msvc_subdirectories = unstable_keep_if (is_directory fs) (get_files_non_recursive fs msvc_path)
      in foldr (insert_sorted (\<lambda>left right. filename P left > filename P right))
           msvc_subdirectories [])"

subsection \<open>Instance enumeration: \<open>get_visual_studio_instances\<close>\<close>

text \<open>
  The body of the loop over the \<open><instance>\<close> entries (lines 79 to 99). The flag is
  read and checked first; the path and the version are the arguments of \<open>emplace_back\<close>,
  read here in the order they are written.
\<close>

definition instance_of_entry :: "'p fs_path \<Rightarrow> StringRange \<Rightarrow> string \<Rightarrow> fatal + 'p VisualStudioInstance" where
  "instance_of_entry P sr inst =
     (case find_at_most_one_enclosed sr inst ''<isPrerelease>'' ''</isPrerelease>'' of
        Inl e \<Rightarrow> Inl e
      | Inr maybe_is_prerelease \<Rightarrow>
         (case (case maybe_is_prerelease of
                  None \<Rightarrow> Inr LEGACY
                | Some s \<Rightarrow> if s = ''0'' then Inr STABLE
                            else if s = ''1'' then Inr PRERELEASE
                            else Inl Unreachable) of
            Inl e \<Rightarrow> Inl e
          | Inr release_type' \<Rightarrow>
             (case find_exactly_one_enclosed sr inst ''<installationPath>'' ''</installationPath>'' of
                Inl e \<Rightarrow> Inl e
              | Inr path \<Rightarrow>
                 (case find_exactly_one_enclosed sr inst ''<installationVersion>'' ''</installationVersion>'' of
                    Inl e \<Rightarrow> Inl e
                  | Inr ver \<Rightarrow>
                      Inr \<lparr>root_path = from_string P path, version = ver, release_type = release_type'\<rparr>))))"

text \<open>The loop: instances are appended in order; the first fatal entry ends the process.\<close>

fun instances_of_entries ::
  "'p fs_path \<Rightarrow> StringRange \<Rightarrow> string list \<Rightarrow> 'p VisualStudioInstance list
     \<Rightarrow> fatal + 'p VisualStudioInstance list" where
  "instances_of_entries P sr [] instances = Inr instances"
| "instances_of_entries P sr (inst # rest) instances =
     (case instance_of_entry P sr inst of
        Inl e \<Rightarrow> Inl e
      | Inr i \<Rightarrow> instances_of_entries P sr rest (instances @ [i]))"

definition vswhere_exe :: "'p fs_path \<Rightarrow> 'p \<Rightarrow> 'p" where
  "vswhere_exe P program_files_32_bit =
     path_join P program_files_32_bit [''Microsoft Visual Studio'', ''Installer'', ''vswhere.exe'']"

text \<open>\<open>Strings::format(R"("%s" -prerelease -legacy -products * -format xml)", ...)\<close>\<close>

definition vswhere_command :: "'p fs_path \<Rightarrow> 'p \<Rightarrow> string" where
  "vswhere_command P exe =
     [CHR 0x22] @ u8string P exe @ [CHR 0x22] @ '' -prerelease -legacy -products * -format xml''"

text \<open>The block "Instances from vswhere" (lines 65 to 101).\<close>

definition instances_from_vswhere ::
  "'p fs_path \<Rightarrow> 'p Filesystem \<Rightarrow> 'p System \<Rightarrow> StringRange \<Rightarrow> 'p
     \<Rightarrow> 'p VisualStudioInstance list \<Rightarrow> fatal + 'p VisualStudioInstance list" where
  "instances_from_vswhere P fs sys sr program_files_32_bit instances =
     (if exists fs (vswhere_exe P program_files_32_bit) then
        (let code_and_output =
               cmd_execute_and_capture_output sys (vswhere_command P (vswhere_exe P program_files_32_bit))
         in if exit_code code_and_output \<noteq> 0
            then Inl (Check_Exit (''Running vswhere.exe failed with message:'' @ [CHR 0x0A]
                                   @ captured_output code_and_output))
            else instances_of_entries P sr
                   (find_all_enclosed sr (captured_output code_and_output) ''<instance>'' ''</instance>'')
                   instances)
      else Inr instances)"

definition append_if_has_cl ::
  "'p fs_path \<Rightarrow> 'p Filesystem \<Rightarrow> 'p \<Rightarrow> 'p VisualStudioInstance list \<Rightarrow> 'p VisualStudioInstance list" where
  "append_if_has_cl P fs path_root instances =
     (let cl_exe = path_join P path_root [''VC'', ''bin'', ''cl.exe''];
          vcvarsall_bat = path_join P path_root [''VC'', ''vcvarsall.bat'']
      in if exists fs cl_exe \<and> exists fs vcvarsall_bat
         then instances @ [\<lparr>root_path = path_root, version = ''14.0'', release_type = LEGACY\<rparr>]
         else instances)"

text \<open>The block "VS2015 instance from environment variable" (lines 112 to 120).\<close>

definition instances_from_comntools ::
  "'p fs_path \<Rightarrow> 'p Filesystem \<Rightarrow> 'p System \<Rightarrow> 'p VisualStudioInstance list \<Rightarrow> 'p VisualStudioInstance list" where
  "instances_from_comntools P fs sys instances =
     (case get_environment_variable sys ''vs140comntools'' of
        None \<Rightarrow> instances
      | Some path_as_string \<Rightarrow>
          append_if_has_cl P fs
            (parent_path P (parent_path P (parent_path P (from_string P path_as_string))))
            (append_if_has_cl P fs
               (parent_path P (parent_path P (from_string P path_as_string)))
               instances))"

definition get_visual_studio_instances ::
  "'p fs_path \<Rightarrow> 'p Filesystem \<Rightarrow> 'p System \<Rightarrow> StringRange \<Rightarrow> fatal + 'p VisualStudioInstance list" where
  "get_visual_studio_instances P fs sys sr =
     (case get_program_files_32_bit sys of
        None \<Rightarrow> Inl Value_Or_Exit
      | Some program_files_32_bit \<Rightarrow>
         (case instances_from_vswhere P fs sys sr program_files_32_bit [] of
            Inl e \<Rightarrow> Inl e
          | Inr instances \<Rightarrow>
              Inr (append_if_has_cl P fs
                     (slash P program_files_32_bit ''Microsoft Visual Studio 14.0'')
                     (instances_from_comntools P fs sys instances))))"

subsection \<open>Toolset resolution: \<open>find_toolset_instances_preferred_first\<close>\<close>

text \<open>The three vectors the function fills.\<close>

record 'p resolution =
  paths_examined :: "'p list"
  found_toolsets :: "'p Toolset list"
  excluded_toolsets :: "'p Toolset list"

definition push_examined :: "'p \<Rightarrow> 'p resolution \<Rightarrow> 'p resolution" where
  "push_examined p st = st\<lparr>paths_examined := paths_examined st @ [p]\<rparr>"

definition push_found :: "'p Toolset \<Rightarrow> 'p resolution \<Rightarrow> 'p resolution" where
  "push_found t st = st\<lparr>found_toolsets := found_toolsets st @ [t]\<rparr>"

definition push_excluded :: "'p Toolset \<Rightarrow> 'p resolution \<Rightarrow> 'p resolution" where
  "push_excluded t st = st\<lparr>excluded_toolsets := excluded_toolsets st @ [t]\<rparr>"

text \<open>How one pass of the loop over the ranked instances ends.\<close>

datatype control = Continue | Break

text \<open>
  The chains of \<open>if (fs.exists(dir / file)) supported_architectures.push_back(...)\<close>:
  each table lists the files in the order of the source, and the options whose file
  exists are kept in that order.
\<close>

definition modern_arch_table :: "(string \<times> ToolsetArchOption) list" where
  "modern_arch_table =
     [(''vcvars32.bat'', \<lparr>name = ''x86'', host_arch = X86, target_arch = X86\<rparr>),
      (''vcvars64.bat'', \<lparr>name = ''amd64'', host_arch = X64, target_arch = X64\<rparr>),
      (''vcvarsx86_amd64.bat'', \<lparr>name = ''x86_amd64'', host_arch = X86, target_arch = X64\<rparr>),
      (''vcvarsx86_arm.bat'', \<lparr>name = ''x86_arm'', host_arch = X86, target_arch = ARM\<rparr>),
      (''vcvarsx86_arm64.bat'', \<lparr>name = ''x86_arm64'', host_arch = X86, target_arch = ARM64\<rparr>),
      (''vcvarsamd64_x86.bat'', \<lparr>name = ''amd64_x86'', host_arch = X64, target_arch = X86\<rparr>),
      (''vcvarsamd64_arm.bat'', \<lparr>name = ''amd64_arm'', host_arch = X64, target_arch = ARM\<rparr>),
      (''vcvarsamd64_arm64.bat'', \<lparr>name = ''amd64_arm64'', host_arch = X64, target_arch = ARM64\<rparr>)]"

definition legacy_arch_table :: "(string \<times> ToolsetArchOption) list" where
  "legacy_arch_table =
     [(''vcvars32.bat'', \<lparr>name = ''x86'', host_arch = X86, target_arch = X86\<rparr>),
      (''amd64'' @ [CHR 0x5C] @ ''vcvars64.bat'', \<lparr>name = ''x64'', host_arch = X64, target_arch = X64\<rparr>),
      (''x86_amd64'' @ [CHR 0x5C] @ ''vcvarsx86_amd64.bat'',
         \<lparr>name = ''x86_amd64'', host_arch = X86, target_arch = X64\<rparr>),
      (''x86_arm'' @ [CHR 0x5C] @ ''vcvarsx86_arm.bat'',
         \<lparr>name = ''x86_arm'', host_arch = X86, target_arch = ARM\<rparr>),
      (''amd64_x86'' @ [CHR 0x5C] @ ''vcvarsamd64_x86.bat'',
         \<lparr>name = ''amd64_x86'', host_arch = X64, target_arch = X86\<rparr>),
      (''amd64_arm'' @ [CHR 0x5C] @ ''vcvarsamd64_arm.bat'',
         \<lparr>name = ''amd64_arm'', host_arch = X64, target_arch = ARM\<rparr>)]"

definition supported_by ::
  "'p fs_path \<Rightarrow> 'p Filesystem \<Rightarrow> 'p \<Rightarrow> (string \<times> ToolsetArchOption) list \<Rightarrow> ToolsetArchOption list" where
  "supported_by P fs dir table = map snd (filter (\<lambda>(file, opt). exists fs (slash P dir file)) table)"

text \<open>
  The loop over \<open>msvc_subdirectories\<close> (lines 191 to 223). Both \<open>break\<close>s leave this
  loop only; it ends at the first subdirectory that has \<open>dumpbin.exe\<close>.
\<close>

fun scan_msvc_subdirectories ::
  "'p fs_path \<Rightarrow> 'p Filesystem \<Rightarrow> bool \<Rightarrow> 'p \<Rightarrow> 'p \<Rightarrow> ToolsetArchOption list
     \<Rightarrow> 'p list \<Rightarrow> 'p resolution \<Rightarrow> 'p resolution" where
  "scan_msvc_subdirectories P fs v140_is_available root vcvarsall_bat supported [] st = st"
| "scan_msvc_subdirectories P fs v140_is_available root vcvarsall_bat supported (subdir # rest) st =
     (let dumpbin_path = path_join P subdir [''bin'', ''HostX86'', ''x86'', ''dumpbin.exe''];
          st1 = push_examined dumpbin_path st
      in if exists fs dumpbin_path then
           (let v141_toolset =
                  \<lparr>visual_studio_root_path = root, dumpbin = dumpbin_path, vcvarsall = vcvarsall_bat,
                   vcvarsall_options = [], toolset_version = V_141,
                   supported_architectures = supported\<rparr>;
                english_language_pack = slash P (parent_path P dumpbin_path) ''1033''
            in if \<not> exists fs english_language_pack then push_excluded v141_toolset st1
               else
                 (let st2 = push_found v141_toolset st1
                  in if v140_is_available then
                       push_found
                         \<lparr>visual_studio_root_path = root, dumpbin = dumpbin_path,
                          vcvarsall = vcvarsall_bat, vcvarsall_options = [''-vcvars_ver=14.0''],
                          toolset_version = V_140, supported_architectures = supported\<rparr>
                         st2
                     else st2))
         else scan_msvc_subdirectories P fs v140_is_available root vcvarsall_bat supported rest st1)"

text \<open>
  One pass of the loop over the ranked instances (lines 149 to 273): the new state, and
  whether the pass ends with \<open>continue\<close> (or falls through) or with the \<open>break\<close> of
  line 267, which leaves the outer loop.
\<close>

definition process_instance ::
  "'p fs_path \<Rightarrow> 'p Filesystem \<Rightarrow> bool \<Rightarrow> 'p VisualStudioInstance \<Rightarrow> 'p resolution
     \<Rightarrow> control \<times> 'p resolution" where
  "process_instance P fs v140_is_available vs_instance st =
     (if major_version vs_instance = ''15'' then
        (let vc_dir = slash P (root_path vs_instance) ''VC'';
             vcvarsall_dir = path_join P vc_dir [''Auxiliary'', ''Build''];
             vcvarsall_bat = slash P vcvarsall_dir ''vcvarsall.bat'';
             st1 = push_examined vcvarsall_bat st
         in if \<not> exists fs vcvarsall_bat then (Continue, st1)
            else (Continue,
                  scan_msvc_subdirectories P fs v140_is_available (root_path vs_instance) vcvarsall_bat
                    (supported_by P fs vcvarsall_dir modern_arch_table)
                    (msvc_subdirectories P fs vc_dir) st1))
      else if major_version vs_instance = ''14'' \<or> major_version vs_instance = ''12'' then
        (let vcvarsall_bat = path_join P (root_path vs_instance) [''VC'', ''vcvarsall.bat''];
             st1 = push_examined vcvarsall_bat st
         in if exists fs vcvarsall_bat then
              (let vs_dumpbin_exe = path_join P (root_path vs_instance) [''VC'', ''bin'', ''dumpbin.exe''];
                   st2 = push_examined vs_dumpbin_exe st1;
                   vs_bin_dir = slash P (parent_path P vcvarsall_bat) ''bin''
               in if exists fs vs_dumpbin_exe then
                    (let toolset =
                           \<lparr>visual_studio_root_path = root_path vs_instance, dumpbin = vs_dumpbin_exe,
                            vcvarsall = vcvarsall_bat, vcvarsall_options = [],
                            toolset_version = (if major_version vs_instance = ''14'' then V_140 else V_120),
                            supported_architectures = supported_by P fs vs_bin_dir legacy_arch_table\<rparr>;
                         english_language_pack = slash P (parent_path P vs_dumpbin_exe) ''1033''
                     in if \<not> exists fs english_language_pack
                        then (Break, push_excluded toolset st2)
                        else (Continue, push_found toolset st2))
                  else (Continue, st2))
            else (Continue, st1))
      else (Continue, st))"

text \<open>The loop over the ranked instances; \<open>Break\<close> drops the rest of the list.\<close>

fun resolve_loop ::
  "'p fs_path \<Rightarrow> 'p Filesystem \<Rightarrow> bool \<Rightarrow> 'p VisualStudioInstance list \<Rightarrow> 'p resolution
     \<Rightarrow> control \<times> 'p resolution" where
  "resolve_loop P fs v140_is_available [] st = (Continue, st)"
| "resolve_loop P fs v140_is_available (vs_instance # rest) st =
     (case process_instance P fs v140_is_available vs_instance st of
        (Break, st') \<Rightarrow> (Break, st')
      | (Continue, st') \<Rightarrow> resolve_loop P fs v140_is_available rest st')"

definition v140_is_available :: "'p VisualStudioInstance list \<Rightarrow> bool" where
  "v140_is_available sorted_instances = list_ex (\<lambda>vs_instance. major_version vs_instance = ''14'') sorted_instances"

definition initial_resolution :: "'p resolution" where
  "initial_resolution = \<lparr>paths_examined = [], found_toolsets = [], excluded_toolsets = []\<rparr>"

text \<open>The resolver on a ranked list: the flag is computed once, then the loop runs.\<close>

definition resolve :: "'p fs_path \<Rightarrow> 'p Filesystem \<Rightarrow> 'p VisualStudioInstance list \<Rightarrow> control \<times> 'p resolution" where
  "resolve P fs sorted_instances =
     resolve_loop P fs (v140_is_available sorted_instances) sorted_instances initial_resolution"

subsection \<open>Reporting\<close>

datatype Color = Color_warning | Color_error

text \<open>A printed line: the colour given to \<open>System::println\<close>, if any, and the text.\<close>

type_synonym printed = "Color option \<times> string"

definition print_excluded :: "'p fs_path \<Rightarrow> 'p resolution \<Rightarrow> printed list" where
  "print_excluded P st =
     (if excluded_toolsets st \<noteq> [] then
        [(Some Color_warning,
          ''Warning: The following VS instances are excluded because the English language pack is unavailable.'')]
        @ map (\<lambda>toolset. (None, ''    '' @ u8string P (visual_studio_root_path toolset)))
            (excluded_toolsets st)
        @ [(Some Color_warning, ''Please install the English language pack.'')]
      else [])"

definition print_examined :: "'p fs_path \<Rightarrow> 'p resolution \<Rightarrow> printed list" where
  "print_examined P st =
     [(Some Color_error, ''Could not locate a complete toolset.''),
      (None, ''The following paths were examined:'')]
     @ map (\<lambda>path. (None, ''    '' @ u8string P path)) (paths_examined st)"

text \<open>Lines 276 to 299: what is printed, and the returned vector or the failing exit.\<close>

definition report :: "'p fs_path \<Rightarrow> 'p resolution \<Rightarrow> printed list \<times> (fatal + 'p Toolset list)" where
  "report P st =
     (if found_toolsets st = []
      then (print_excluded P st @ print_examined P st, Inl Exit_Fail)
      else (print_excluded P st, Inr (found_toolsets st)))"

definition find_toolset_instances_preferred_first ::
  "'p fs_path \<Rightarrow> 'p Filesystem \<Rightarrow> 'p System \<Rightarrow> StringRange
     \<Rightarrow> printed list \<times> (fatal + 'p Toolset list)" where
  "find_toolset_instances_preferred_first P fs sys sr =
     (case get_visual_studio_instances P fs sys sr of
        Inl e \<Rightarrow> ([], Inl e)
      | Inr instances \<Rightarrow>
          report P (snd (resolve P fs (SortedVector instances preferred_first_comparator))))"

subsection \<open>Predicates used in the statements\<close>

text \<open>
  A legacy instance whose \<open>vcvarsall.bat\<close> and \<open>dumpbin.exe\<close> exist and whose
  \<open>1033\<close> folder beside \<open>dumpbin.exe\<close> does not.
\<close>

definition legacy_locale_missing :: "'p fs_path \<Rightarrow> 'p Filesystem \<Rightarrow> 'p VisualStudioInstance \<Rightarrow> bool" where
  "legacy_locale_missing P fs i =
     ((major_version i = ''14'' \<or> major_version i = ''12'')
      \<and> exists fs (path_join P (root_path i) [''VC'', ''vcvarsall.bat''])
      \<and> exists fs (path_join P (root_path i) [''VC'', ''bin'', ''dumpbin.exe''])
      \<and> \<not> exists fs (slash P (parent_path P (path_join P (root_path i) [''VC'', ''bin'', ''dumpbin.exe''])) ''1033''))"

text \<open>The \<open>dumpbin.exe\<close> of a toolchain-version subdirectory.\<close>

definition msvc_dumpbin :: "'p fs_path \<Rightarrow> 'p \<Rightarrow> 'p" where
  "msvc_dumpbin P subdir = path_join P subdir [''bin'', ''HostX86'', ''x86'', ''dumpbin.exe'']"

text \<open>The English language pack of a toolset: the folder \<open>1033\<close> beside its \<open>dumpbin.exe\<close>.\<close>

definition english_language_pack :: "'p fs_path \<Rightarrow> 'p Toolset \<Rightarrow> 'p" where
  "english_language_pack P t = slash P (parent_path P (dumpbin t)) ''1033''"

text \<open>
  The candidate of an instance, in the words of the spec: for the modern generation the
  environment-setup script must exist and the candidate is built from the first
  toolchain-version subdirectory, in sorted order, that holds the inspection tool; for
  the legacy generations the environment-setup script and the inspection tool must both
  exist under the root. No other instance has a candidate.
\<close>

definition candidate :: "'p fs_path \<Rightarrow> 'p Filesystem \<Rightarrow> 'p VisualStudioInstance \<Rightarrow> 'p Toolset option" where
  "candidate P fs i =
     (if major_version i = ''15'' then
        (if exists fs (path_join P (root_path i) [''VC'', ''Auxiliary'', ''Build'', ''vcvarsall.bat'']) then
           (case find (\<lambda>subdir. exists fs (msvc_dumpbin P subdir))
                   (msvc_subdirectories P fs (slash P (root_path i) ''VC'')) of
              None \<Rightarrow> None
            | Some subdir \<Rightarrow>
                Some \<lparr>visual_studio_root_path = root_path i, dumpbin = msvc_dumpbin P subdir,
                      vcvarsall = path_join P (root_path i) [''VC'', ''Auxiliary'', ''Build'', ''vcvarsall.bat''],
                      vcvarsall_options = [], toolset_version = V_141,
                      supported_architectures =
                        supported_by P fs (path_join P (root_path i) [''VC'', ''Auxiliary'', ''Build''])
                          modern_arch_table\<rparr>)
         else None)
      else if major_version i = ''14'' \<or> major_version i = ''12'' then
        (if exists fs (path_join P (root_path i) [''VC'', ''vcvarsall.bat''])
            \<and> exists fs (path_join P (root_path i) [''VC'', ''bin'', ''dumpbin.exe''])
         then Some \<lparr>visual_studio_root_path = root_path i,
                    dumpbin = path_join P (root_path i) [''VC'', ''bin'', ''dumpbin.exe''],
                    vcvarsall = path_join P (root_path i) [''VC'', ''vcvarsall.bat''],
                    vcvarsall_options = [],
                    toolset_version = (if major_version i = ''14'' then V_140 else V_120),
                    supported_architectures =
                      supported_by P fs
                        (slash P (parent_path P (path_join P (root_path i) [''VC'', ''vcvarsall.bat''])) ''bin'')
                        legacy_arch_table\<rparr>
         else None)
      else None)"

text \<open>What a pass appends to \<open>found\<close> for a candidate whose English folder exists.\<close>

definition emitted :: "bool \<Rightarrow> 'p VisualStudioInstance \<Rightarrow> 'p Toolset \<Rightarrow> 'p Toolset list" where
  "emitted v140 i t =
     (if major_version i = ''15'' \<and> v140
      then [t, t\<lparr>vcvarsall_options := [''-vcvars_ver=14.0''], toolset_version := V_140\<rparr>]
      else [t])"

text \<open>
  The state of a resolution is well routed when every toolset in \<open>found\<close> has its
  three files and every toolset in \<open>excluded\<close> has the two tools and no English folder.
\<close>

definition routed :: "'p fs_path \<Rightarrow> 'p Filesystem \<Rightarrow> 'p resolution \<Rightarrow> bool" where
  "routed P fs st =
     (list_all (\<lambda>t. exists fs (vcvarsall t) \<and> exists fs (dumpbin t)
                    \<and> exists fs (english_language_pack P t)) (found_toolsets st)
      \<and> list_all (\<lambda>t. exists fs (vcvarsall t) \<and> exists fs (dumpbin t)
                    \<and> \<not> exists fs (english_language_pack P t)) (excluded_toolsets st))"

text \<open>
  The order of the ranking: \<open>a\<close> may stand in front of \<open>b\<close> when its tier weighs
  more, or the tiers are the same and its version text is not smaller.
\<close>

definition ranked_before :: "'p VisualStudioInstance \<Rightarrow> 'p VisualStudioInstance \<Rightarrow> bool" where
  "ranked_before a b =
     (get_preference_weight (release_type a) > get_preference_weight (release_type b)
      \<or> (release_type a = release_type b \<and> version a \<ge> version b))"

text \<open>
  What \<open>append_if_has_cl\<close> adds for a candidate root, in the words of the spec: a Legacy
  instance with version "14.0" when \<open>cl.exe\<close> and \<open>vcvarsall.bat\<close> both exist under it,
  nothing otherwise.
\<close>

definition legacy_instance_if_has_cl ::
  "'p fs_path \<Rightarrow> 'p Filesystem \<Rightarrow> 'p \<Rightarrow> 'p VisualStudioInstance list" where
  "legacy_instance_if_has_cl P fs root =
     (if exists fs (path_join P root [''VC'', ''bin'', ''cl.exe''])
         \<and> exists fs (path_join P root [''VC'', ''vcvarsall.bat''])
      then [\<lparr>root_path = root, version = ''14.0'', release_type = LEGACY\<rparr>]
      else [])"

subsection \<open>A concrete machine for evaluation\<close>

text \<open>
  Paths as lists of segments: \<open>/\<close> adds a segment, \<open>parent_path\<close> drops the last one,
  and a text is cut at the backslashes, so that a trailing backslash leaves an empty
  last segment.
\<close>

fun split_segments :: "string \<Rightarrow> string list" where
  "split_segments [] = [[]]"
| "split_segments (c # cs) =
     (if c = CHR 0x5C then [] # split_segments cs
      else (case split_segments cs of [] \<Rightarrow> [[c]] | w # ws \<Rightarrow> (c # w) # ws))"

fun join_segments :: "string list \<Rightarrow> string" where
  "join_segments [] = []"
| "join_segments [s] = s"
| "join_segments (s # t # ss) = s @ [CHR 0x5C] @ join_segments (t # ss)"

definition segment_paths :: "string list fs_path" where
  "segment_paths =
     \<lparr>slash = (\<lambda>p s. p @ [s]), parent_path = butlast,
      filename = (\<lambda>p. case rev p of [] \<Rightarrow> [] | s # _ \<Rightarrow> s),
      u8string = join_segments, from_string = split_segments\<rparr>"

text \<open>
  A filesystem given by the list of its files: a path exists when it is a file or leads
  to one, it is a directory when it leads to one, and the children of a directory are
  the next segments below it.
\<close>

definition leads_to :: "string list \<Rightarrow> string list \<Rightarrow> bool" where
  "leads_to p q = (length p < length q \<and> take (length p) q = p)"

definition files_fs :: "string list list \<Rightarrow> string list Filesystem" where
  "files_fs files =
     \<lparr>exists = (\<lambda>p. list_ex (\<lambda>q. q = p \<or> leads_to p q) files),
      is_directory = (\<lambda>p. list_ex (leads_to p) files),
      get_files_non_recursive =
        (\<lambda>d. remdups (map (take (Suc (length d))) (filter (leads_to d) files)))\<rparr>"

text \<open>
  String ranges by plain search: \<open>after_tag\<close> is the text behind the first occurrence
  of a tag, \<open>before_tag\<close> the text in front of it, and \<open>all_enclosed\<close> collects, from
  left to right, the texts between a left tag and the next right tag. Its first argument
  bounds the number of results; the length of the input is always enough.
\<close>

fun after_tag :: "string \<Rightarrow> string \<Rightarrow> string option" where
  "after_tag tag [] = (if tag = [] then Some [] else None)"
| "after_tag tag (c # cs) =
     (if take (length tag) (c # cs) = tag then Some (drop (length tag) (c # cs))
      else after_tag tag cs)"

fun before_tag :: "string \<Rightarrow> string \<Rightarrow> string option" where
  "before_tag tag [] = (if tag = [] then Some [] else None)"
| "before_tag tag (c # cs) =
     (if take (length tag) (c # cs) = tag then Some []
      else map_option ((#) c) (before_tag tag cs))"

fun all_enclosed :: "nat \<Rightarrow> string \<Rightarrow> string \<Rightarrow> string \<Rightarrow> string list" where
  "all_enclosed 0 input left_tag right_tag = []"
| "all_enclosed (Suc n) input left_tag right_tag =
     (case after_tag left_tag input of
        None \<Rightarrow> []
      | Some rest \<Rightarrow>
         (case before_tag right_tag rest of
            None \<Rightarrow> []
          | Some body \<Rightarrow>
              body # all_enclosed n (drop (length body + length right_tag) rest) left_tag right_tag))"

definition simple_ranges :: StringRange where
  "simple_ranges =
     \<lparr>find_all_enclosed = (\<lambda>input l r. all_enclosed (length input) input l r),
      find_at_most_one_enclosed =
        (\<lambda>input l r. case all_enclosed (length input) input l r of
                        [] \<Rightarrow> Inr None
                      | [x] \<Rightarrow> Inr (Some x)
                      | _ \<Rightarrow> Inl (Check_Exit ''more than one'')),
      find_exactly_one_enclosed =
        (\<lambda>input l r. case all_enclosed (length input) input l r of
                        [x] \<Rightarrow> Inr x
                      | _ \<Rightarrow> Inl (Check_Exit ''not exactly one''))\<rparr>"

text \<open>A machine with Visual Studio 2017, 2015 and 2013, and one with an unknown suite.\<close>

definition vs2017 :: "string list VisualStudioInstance" where
  "vs2017 = \<lparr>root_path = [''C:'', ''VS2017''], version = ''15.9.28307.1000'', release_type = STABLE\<rparr>"

definition vs2015 :: "string list VisualStudioInstance" where
  "vs2015 = \<lparr>root_path = [''C:'', ''VS14''], version = ''14.0'', release_type = LEGACY\<rparr>"

definition vs2013 :: "string list VisualStudioInstance" where
  "vs2013 = \<lparr>root_path = [''C:'', ''VS12''], version = ''12.0'', release_type = LEGACY\<rparr>"

definition vs2019 :: "string list VisualStudioInstance" where
  "vs2019 = \<lparr>root_path = [''C:'', ''VS2019''], version = ''16.0.1'', release_type = STABLE\<rparr>"

text \<open>
  Visual Studio 2017 with two toolchain versions, the later one without its English
  folder; 2015 without its English folder; 2013 complete.
\<close>

definition machine_files :: "string list list" where
  "machine_files =
     [[''C:'', ''VS2017'', ''VC'', ''Auxiliary'', ''Build'', ''vcvarsall.bat''],
      [''C:'', ''VS2017'', ''VC'', ''Auxiliary'', ''Build'', ''vcvars64.bat''],
      [''C:'', ''VS2017'', ''VC'', ''Tools'', ''MSVC'', ''14.16.27023'', ''bin'', ''HostX86'', ''x86'', ''dumpbin.exe''],
      [''C:'', ''VS2017'', ''VC'', ''Tools'', ''MSVC'', ''14.10.25017'', ''bin'', ''HostX86'', ''x86'', ''dumpbin.exe''],
      [''C:'', ''VS2017'', ''VC'', ''Tools'', ''MSVC'', ''14.10.25017'', ''bin'', ''HostX86'', ''x86'', ''1033'', ''clui.dll''],
      [''C:'', ''VS14'', ''VC'', ''vcvarsall.bat''],
      [''C:'', ''VS14'', ''VC'', ''bin'', ''dumpbin.exe''],
      [''C:'', ''VS14'', ''VC'', ''bin'', ''cl.exe''],
      [''C:'', ''VS12'', ''VC'', ''vcvarsall.bat''],
      [''C:'', ''VS12'', ''VC'', ''bin'', ''dumpbin.exe''],
      [''C:'', ''VS12'', ''VC'', ''bin'', ''1033'', ''clui.dll'']]"

text \<open>
  A Visual Studio 2017 folder that has lost its \<open>vcvarsall.bat\<close>: one toolchain
  version with \<open>dumpbin.exe\<close>, no English folder.
\<close>

definition bare_files :: "string list list" where
  "bare_files =
     [[''C:'', ''VS2017'', ''VC'', ''Tools'', ''MSVC'', ''14.16.27023'', ''bin'', ''HostX86'', ''x86'', ''dumpbin.exe'']]"

text \<open>A machine with complete installations of Visual Studio 2017 and 2015.\<close>

definition healthy_files :: "string list list" where
  "healthy_files =
     [[''C:'', ''VS2017'', ''VC'', ''Auxiliary'', ''Build'', ''vcvarsall.bat''],
      [''C:'', ''VS2017'', ''VC'', ''Auxiliary'', ''Build'', ''vcvars32.bat''],
      [''C:'', ''VS2017'', ''VC'', ''Tools'', ''MSVC'', ''14.16.27023'', ''bin'', ''HostX86'', ''x86'', ''dumpbin.exe''],
      [''C:'', ''VS2017'', ''VC'', ''Tools'', ''MSVC'', ''14.16.27023'', ''bin'', ''HostX86'', ''x86'', ''1033'', ''clui.dll''],
      [''C:'', ''VS14'', ''VC'', ''vcvarsall.bat''],
      [''C:'', ''VS14'', ''VC'', ''bin'', ''dumpbin.exe''],
      [''C:'', ''VS14'', ''VC'', ''bin'', ''1033'', ''clui.dll'']]"

text \<open>Two installations with the same tier and version text, and a prerelease.\<close>

definition vs2015_a :: "string list VisualStudioInstance" where
  "vs2015_a = \<lparr>root_path = [''C:'', ''A''], version = ''14.0'', release_type = LEGACY\<rparr>"

definition vs2015_b :: "string list VisualStudioInstance" where
  "vs2015_b = \<lparr>root_path = [''C:'', ''B''], version = ''14.0'', release_type = LEGACY\<rparr>"

definition vs2017_preview :: "string list VisualStudioInstance" where
  "vs2017_preview = \<lparr>root_path = [''C:'', ''Preview''], version = ''15.9.28307.1000'', release_type = PRERELEASE\<rparr>"

text \<open>Three records as the query tool prints them: stable, without flag, with a flag "2".\<close>

definition stable_record :: string where
  "stable_record =
     ''<instanceId>a1</instanceId><installationPath>VS2017</installationPath><installationVersion>15.9.28307.1000</installationVersion><isPrerelease>0</isPrerelease>''"

definition legacy_record :: string where
  "legacy_record =
     ''<installationPath>VS14</installationPath><installationVersion>14.0</installationVersion>''"

definition odd_record :: string where
  "odd_record =
     ''<installationPath>VS2017</installationPath><installationVersion>15.9.28307.1000</installationVersion><isPrerelease>2</isPrerelease>''"

text \<open>
  A system whose program-files root is the folder \<open>PF\<close> of drive C, whose query tool prints nothing and
  whose \<open>vs140comntools\<close> names the tools folder of Visual Studio 2015, with a trailing
  backslash.
\<close>

definition comntools_text :: string where
  "comntools_text = join_segments [''C:'', ''VS14'', ''Common7'', ''Tools'', []]"

definition sample_system :: "string list System" where
  "sample_system =
     \<lparr>get_program_files_32_bit = Some [''C:'', ''PF''],
      cmd_execute_and_capture_output = (\<lambda>_. \<lparr>exit_code = 0, captured_output = []\<rparr>),
      get_environment_variable =
        (\<lambda>n. if n = ''vs140comntools'' then Some comntools_text else None)\<rparr>"

text \<open>A system without the environment variable, whose query tool fails.\<close>

definition failing_system :: "string list System" where
  "failing_system =
     \<lparr>get_program_files_32_bit = Some [''C:'', ''PF''],
      cmd_execute_and_capture_output = (\<lambda>_. \<lparr>exit_code = 1, captured_output = ''no such product''\<rparr>),
      get_environment_variable = (\<lambda>_. None)\<rparr>"

text \<open>A machine that has the query tool and nothing else.\<close>

definition vswhere_only_files :: "string list list" where
  "vswhere_only_files = [[''C:'', ''PF'', ''Microsoft Visual Studio'', ''Installer'', ''vswhere.exe'']]"

section \<open>Properties\<close>

subsection \<open>One pass of the resolution loop\<close>

lemma process_instance_other:
  assumes "major_version i \<noteq> ''15''" "major_version i \<noteq> ''14''" "major_version i \<noteq> ''12''"
  shows "process_instance P fs v i st = (Continue, st)"
  using assms by (simp add: process_instance_def)

lemma process_instance_Break_iff:
  "fst (process_instance P fs v i st) = Break \<longleftrightarrow> legacy_locale_missing P fs i"
  by (auto simp add: process_instance_def legacy_locale_missing_def Let_def)

lemma process_instance_legacy_missing:
  assumes "legacy_locale_missing P fs i"
  shows "process_instance P fs v i st =
     (Break,
      st\<lparr>paths_examined := paths_examined st
            @ [path_join P (root_path i) [''VC'', ''vcvarsall.bat''],
               path_join P (root_path i) [''VC'', ''bin'', ''dumpbin.exe'']],
         excluded_toolsets := excluded_toolsets st
            @ [\<lparr>visual_studio_root_path = root_path i,
                 dumpbin = path_join P (root_path i) [''VC'', ''bin'', ''dumpbin.exe''],
                 vcvarsall = path_join P (root_path i) [''VC'', ''vcvarsall.bat''],
                 vcvarsall_options = [],
                 toolset_version = (if major_version i = ''14'' then V_140 else V_120),
                 supported_architectures =
                   supported_by P fs
                     (slash P (parent_path P (path_join P (root_path i) [''VC'', ''vcvarsall.bat''])) ''bin'')
                     legacy_arch_table\<rparr>]\<rparr>)"
  using assms
  by (auto simp add: process_instance_def legacy_locale_missing_def Let_def push_examined_def push_excluded_def)

lemma resolve_loop_append:
  "resolve_loop P fs v (pre @ post) st =
     (case resolve_loop P fs v pre st of
        (Break, st') \<Rightarrow> (Break, st')
      | (Continue, st') \<Rightarrow> resolve_loop P fs v post st')"
  by (induction pre arbitrary: st) (auto split: prod.splits control.splits)

lemma resolve_loop_no_break:
  "\<forall>j\<in>set pre. \<not> legacy_locale_missing P fs j \<Longrightarrow> fst (resolve_loop P fs v pre st) = Continue"
proof (induction pre arbitrary: st)
  case Nil
  then show ?case by simp
next
  case (Cons j pre)
  from Cons.prems have "fst (process_instance P fs v j st) \<noteq> Break"
    by (simp add: process_instance_Break_iff)
  then obtain st' where "process_instance P fs v j st = (Continue, st')"
    by (cases "process_instance P fs v j st") (auto intro: control.exhaust)
  with Cons show ?case by simp
qed

subsection \<open>The scan of the toolchain-version subdirectories\<close>

lemma scan_skip:
  assumes "\<forall>d\<in>set pre. \<not> exists fs (msvc_dumpbin P d)"
  shows "scan_msvc_subdirectories P fs v root bat archs (pre @ rest) st =
         scan_msvc_subdirectories P fs v root bat archs rest
           (st\<lparr>paths_examined := paths_examined st @ map (msvc_dumpbin P) pre\<rparr>)"
  using assms
proof (induction pre arbitrary: st)
  case Nil
  then show ?case by simp
next
  case (Cons d pre)
  then show ?case
    by (simp add: msvc_dumpbin_def push_examined_def Let_def)
qed

lemma scan_match_excluded:
  assumes "exists fs (msvc_dumpbin P s)"
    and "\<not> exists fs (slash P (parent_path P (msvc_dumpbin P s)) ''1033'')"
  shows "scan_msvc_subdirectories P fs v root bat archs (s # post) st =
         st\<lparr>paths_examined := paths_examined st @ [msvc_dumpbin P s],
            excluded_toolsets := excluded_toolsets st
              @ [\<lparr>visual_studio_root_path = root, dumpbin = msvc_dumpbin P s, vcvarsall = bat,
                   vcvarsall_options = [], toolset_version = V_141,
                   supported_architectures = archs\<rparr>]\<rparr>"
  using assms
  by (simp add: msvc_dumpbin_def push_examined_def push_excluded_def Let_def)

lemma found_scan:
  "found_toolsets (scan_msvc_subdirectories P fs v root bat archs ds st) =
     (case find (\<lambda>d. exists fs (msvc_dumpbin P d)) ds of
        None \<Rightarrow> found_toolsets st
      | Some d \<Rightarrow>
          if exists fs (slash P (parent_path P (msvc_dumpbin P d)) ''1033'')
          then found_toolsets st
                 @ \<lparr>visual_studio_root_path = root, dumpbin = msvc_dumpbin P d, vcvarsall = bat,
                     vcvarsall_options = [], toolset_version = V_141,
                     supported_architectures = archs\<rparr>
                 # (if v then [\<lparr>visual_studio_root_path = root, dumpbin = msvc_dumpbin P d,
                                 vcvarsall = bat, vcvarsall_options = [''-vcvars_ver=14.0''],
                                 toolset_version = V_140, supported_architectures = archs\<rparr>]
                    else [])
          else found_toolsets st)"
  by (induction ds arbitrary: st)
     (simp_all add: msvc_dumpbin_def [symmetric] push_examined_def push_found_def push_excluded_def Let_def
        split: option.split)

lemma excluded_scan:
  "excluded_toolsets (scan_msvc_subdirectories P fs v root bat archs ds st) =
     (case find (\<lambda>d. exists fs (msvc_dumpbin P d)) ds of
        None \<Rightarrow> excluded_toolsets st
      | Some d \<Rightarrow>
          if exists fs (slash P (parent_path P (msvc_dumpbin P d)) ''1033'')
          then excluded_toolsets st
          else excluded_toolsets st
                 @ [\<lparr>visual_studio_root_path = root, dumpbin = msvc_dumpbin P d, vcvarsall = bat,
                      vcvarsall_options = [], toolset_version = V_141,
                      supported_architectures = archs\<rparr>])"
  by (induction ds arbitrary: st)
     (simp_all add: msvc_dumpbin_def [symmetric] push_examined_def push_found_def push_excluded_def Let_def
        split: option.split)

lemma found_process_instance:
  "found_toolsets (snd (process_instance P fs v i st)) =
     (case candidate P fs i of
        None \<Rightarrow> found_toolsets st
      | Some t \<Rightarrow> if exists fs (english_language_pack P t)
                  then found_toolsets st @ emitted v i t else found_toolsets st)"
  by (auto simp add: process_instance_def candidate_def emitted_def english_language_pack_def
        found_scan path_join_def Let_def push_examined_def push_found_def push_excluded_def
      split: option.splits)


lemma excluded_process_instance:
  "excluded_toolsets (snd (process_instance P fs v i st)) =
     (case candidate P fs i of
        None \<Rightarrow> excluded_toolsets st
      | Some t \<Rightarrow> if exists fs (english_language_pack P t)
                  then excluded_toolsets st else excluded_toolsets st @ [t])"
  by (auto simp add: process_instance_def candidate_def english_language_pack_def
        excluded_scan path_join_def Let_def push_examined_def push_found_def push_excluded_def
      split: option.splits)

lemma candidate_complete:
  assumes "candidate P fs i = Some t"
  shows "exists fs (vcvarsall t) \<and> exists fs (dumpbin t)"
  using assms
  by (auto simp add: candidate_def find_Some_iff split: if_splits option.splits)

section \<open>Statements of the specification\<close>

subsection \<open>C1: a legacy instance without its English folder ends the whole resolution\<close>

text \<open>
  C1. When the loop is at a legacy instance (major version "14" or "12") whose
  \<open>vcvarsall.bat\<close> and \<open>dumpbin.exe\<close> exist and whose \<open>1033\<close> folder does not, whatever
  the state so far and whatever follows in the ranked list: the two probed paths are
  recorded, the candidate is appended to \<open>excluded\<close> (exactly one new entry), \<open>found\<close>
  is unchanged, and the loop ends there, so that the instances ranked after it
  contribute nothing. In a ranked list the first such instance is always reached: the
  result is that of the instances in front of it followed by this one pass.
\<close>

theorem legacy_missing_locale_ends_resolution:
  assumes "legacy_locale_missing P fs i"
  shows "resolve_loop P fs v (i # post) st =
     (Break,
      st\<lparr>paths_examined := paths_examined st
            @ [path_join P (root_path i) [''VC'', ''vcvarsall.bat''],
               path_join P (root_path i) [''VC'', ''bin'', ''dumpbin.exe'']],
         excluded_toolsets := excluded_toolsets st
            @ [\<lparr>visual_studio_root_path = root_path i,
                 dumpbin = path_join P (root_path i) [''VC'', ''bin'', ''dumpbin.exe''],
                 vcvarsall = path_join P (root_path i) [''VC'', ''vcvarsall.bat''],
                 vcvarsall_options = [],
                 toolset_version = (if major_version i = ''14'' then V_140 else V_120),
                 supported_architectures =
                   supported_by P fs
                     (slash P (parent_path P (path_join P (root_path i) [''VC'', ''vcvarsall.bat''])) ''bin'')
                     legacy_arch_table\<rparr>]\<rparr>)
   \<and> ((\<forall>j\<in>set pre. \<not> legacy_locale_missing P fs j) \<longrightarrow>
        resolve_loop P fs v (pre @ i # post) st
          = resolve_loop P fs v [i] (snd (resolve_loop P fs v pre st)))"
proof (intro conjI impI)
  show "resolve_loop P fs v (i # post) st =
     (Break,
      st\<lparr>paths_examined := paths_examined st
            @ [path_join P (root_path i) [''VC'', ''vcvarsall.bat''],
               path_join P (root_path i) [''VC'', ''bin'', ''dumpbin.exe'']],
         excluded_toolsets := excluded_toolsets st
            @ [\<lparr>visual_studio_root_path = root_path i,
                 dumpbin = path_join P (root_path i) [''VC'', ''bin'', ''dumpbin.exe''],
                 vcvarsall = path_join P (root_path i) [''VC'', ''vcvarsall.bat''],
                 vcvarsall_options = [],
                 toolset_version = (if major_version i = ''14'' then V_140 else V_120),
                 supported_architectures =
                   supported_by P fs
                     (slash P (parent_path P (path_join P (root_path i) [''VC'', ''vcvarsall.bat''])) ''bin'')
                     legacy_arch_table\<rparr>]\<rparr>)"
    by (simp add: process_instance_legacy_missing [OF assms])
next
  assume pre: "\<forall>j\<in>set pre. \<not> legacy_locale_missing P fs j"
  obtain st' where st': "resolve_loop P fs v pre st = (Continue, st')"
    using resolve_loop_no_break [OF pre, of v st]
    by (cases "resolve_loop P fs v pre st") auto
  have "resolve_loop P fs v (pre @ i # post) st = resolve_loop P fs v (i # post) st'"
    by (simp add: resolve_loop_append st')
  also have "\<dots> = resolve_loop P fs v [i] st'"
    by (simp add: process_instance_legacy_missing [OF assms])
  finally show "resolve_loop P fs v (pre @ i # post) st
          = resolve_loop P fs v [i] (snd (resolve_loop P fs v pre st))"
    by (simp add: st')
qed

text \<open>
  On the sample machine: Visual Studio 2015 lacks its English folder, the complete
  Visual Studio 2013 behind it is never resolved.
\<close>

theorem legacy_missing_locale_ends_resolution_witness:
  "legacy_locale_missing segment_paths (files_fs machine_files) vs2015
   \<and> \<not> legacy_locale_missing segment_paths (files_fs machine_files) vs2019
   \<and> fst (resolve_loop segment_paths (files_fs machine_files) True [vs2015, vs2013] initial_resolution) = Break
   \<and> found_toolsets (snd (resolve_loop segment_paths (files_fs machine_files) True [vs2015, vs2013] initial_resolution)) = []
   \<and> map visual_studio_root_path
        (excluded_toolsets (snd (resolve_loop segment_paths (files_fs machine_files) True [vs2015, vs2013] initial_resolution)))
       = [[''C:'', ''VS14'']]
   \<and> resolve_loop segment_paths (files_fs machine_files) True ([vs2019] @ vs2015 # [vs2013]) initial_resolution
       = resolve_loop segment_paths (files_fs machine_files) True [vs2015]
           (snd (resolve_loop segment_paths (files_fs machine_files) True [vs2019] initial_resolution))"
proof -
  have h: "legacy_locale_missing segment_paths (files_fs machine_files) vs2015"
    by code_simp
  have p: "\<forall>j\<in>set [vs2019]. \<not> legacy_locale_missing segment_paths (files_fs machine_files) j"
    by code_simp
  note t = legacy_missing_locale_ends_resolution [OF h, of True "[vs2013]" initial_resolution "[vs2019]"]
  have q: "\<not> legacy_locale_missing segment_paths (files_fs machine_files) vs2019"
    using p by simp
  show ?thesis
    using h q p t by (simp add: initial_resolution_def vs2015_def)
qed

subsection \<open>C2: what is in \<open>found\<close> is complete, what lacks its English folder is in \<open>excluded\<close>\<close>

lemma emitted_same_files:
  assumes "u \<in> set (emitted v i t)"
  shows "vcvarsall u = vcvarsall t \<and> dumpbin u = dumpbin t"
  using assms by (auto simp add: emitted_def split: if_splits)

lemma process_instance_routed:
  assumes "routed P fs st"
  shows "routed P fs (snd (process_instance P fs v i st))"
proof (cases "candidate P fs i")
  case None
  with assms show ?thesis
    by (simp add: routed_def found_process_instance excluded_process_instance)
next
  case (Some t)
  note files = candidate_complete [OF Some]
  show ?thesis
  proof (cases "exists fs (english_language_pack P t)")
    case True
    have "list_all (\<lambda>u. exists fs (vcvarsall u) \<and> exists fs (dumpbin u)
                         \<and> exists fs (english_language_pack P u)) (emitted v i t)"
      using files True emitted_same_files [of _ v i t]
      by (auto simp add: list_all_iff english_language_pack_def)
    with assms Some True show ?thesis
      by (simp add: routed_def found_process_instance excluded_process_instance)
  next
    case False
    with assms Some files show ?thesis
      by (simp add: routed_def found_process_instance excluded_process_instance)
  qed
qed

lemma resolve_loop_routed:
  assumes "routed P fs st"
  shows "routed P fs (snd (resolve_loop P fs v xs st))"
  using assms
proof (induction xs arbitrary: st)
  case Nil
  then show ?case by simp
next
  case (Cons i xs)
  obtain c st' where pass: "process_instance P fs v i st = (c, st')"
    by (cases "process_instance P fs v i st")
  from process_instance_routed [OF Cons.prems, of v i] pass have st': "routed P fs st'"
    by simp
  show ?case
  proof (cases c)
    case Continue
    with pass Cons.IH [OF st'] show ?thesis by simp
  next
    case Break
    with pass st' show ?thesis by simp
  qed
qed

lemma resolve_routed: "routed P fs (snd (resolve P fs xs))"
  unfolding resolve_def
  by (rule resolve_loop_routed) (simp add: routed_def initial_resolution_def)

text \<open>
  C2. After the resolution of any ranked list, every toolset in \<open>found\<close> has an
  existing \<open>vcvarsall.bat\<close>, an existing \<open>dumpbin.exe\<close> and an existing \<open>1033\<close>
  folder, and every toolset in \<open>excluded\<close> has the two tools and no \<open>1033\<close> folder; so
  has every toolset the whole function returns. In each pass, a candidate whose
  \<open>1033\<close> folder is absent is appended to \<open>excluded\<close> and \<open>found\<close> stays as it is.
\<close>

theorem found_toolsets_have_their_files:
  "(\<forall>t\<in>set (found_toolsets (snd (resolve P fs xs))).
       exists fs (vcvarsall t) \<and> exists fs (dumpbin t) \<and> exists fs (english_language_pack P t))
   \<and> (\<forall>t\<in>set (excluded_toolsets (snd (resolve P fs xs))).
       exists fs (vcvarsall t) \<and> exists fs (dumpbin t) \<and> \<not> exists fs (english_language_pack P t))
   \<and> (find_toolset_instances_preferred_first P fs sys sr = (out, Inr ts) \<longrightarrow>
        (\<forall>t\<in>set ts.
           exists fs (vcvarsall t) \<and> exists fs (dumpbin t) \<and> exists fs (english_language_pack P t)))
   \<and> (candidate P fs i = Some c \<and> \<not> exists fs (english_language_pack P c) \<longrightarrow>
        excluded_toolsets (snd (process_instance P fs v i st)) = excluded_toolsets st @ [c]
        \<and> found_toolsets (snd (process_instance P fs v i st)) = found_toolsets st)"
proof (intro conjI impI)
  show "\<forall>t\<in>set (found_toolsets (snd (resolve P fs xs))).
       exists fs (vcvarsall t) \<and> exists fs (dumpbin t) \<and> exists fs (english_language_pack P t)"
    using resolve_routed [of P fs xs] by (simp add: routed_def list_all_iff)
next
  show "\<forall>t\<in>set (excluded_toolsets (snd (resolve P fs xs))).
       exists fs (vcvarsall t) \<and> exists fs (dumpbin t) \<and> \<not> exists fs (english_language_pack P t)"
    using resolve_routed [of P fs xs] by (simp add: routed_def list_all_iff)
next
  assume r: "find_toolset_instances_preferred_first P fs sys sr = (out, Inr ts)"
  then obtain instances where
    ts: "ts = found_toolsets (snd (resolve P fs (SortedVector instances preferred_first_comparator)))"
    by (auto simp add: find_toolset_instances_preferred_first_def report_def
          split: sum.splits if_splits)
  show "\<forall>t\<in>set ts.
       exists fs (vcvarsall t) \<and> exists fs (dumpbin t) \<and> exists fs (english_language_pack P t)"
    using resolve_routed [of P fs "SortedVector instances preferred_first_comparator"]
    by (simp add: ts routed_def list_all_iff)
next
  assume "candidate P fs i = Some c \<and> \<not> exists fs (english_language_pack P c)"
  then show "excluded_toolsets (snd (process_instance P fs v i st)) = excluded_toolsets st @ [c]"
    by (simp add: excluded_process_instance)
next
  assume "candidate P fs i = Some c \<and> \<not> exists fs (english_language_pack P c)"
  then show "found_toolsets (snd (process_instance P fs v i st)) = found_toolsets st"
    by (simp add: found_process_instance)
qed

text \<open>
  On the healthy machine three toolsets are found, all complete; on the sample machine
  the candidate of Visual Studio 2015 goes to \<open>excluded\<close>.
\<close>

theorem found_toolsets_have_their_files_witness:
  "length (found_toolsets (snd (resolve segment_paths (files_fs healthy_files) [vs2017, vs2015]))) = 3
   \<and> list_all (\<lambda>t. exists (files_fs healthy_files) (vcvarsall t)
                    \<and> exists (files_fs healthy_files) (dumpbin t)
                    \<and> exists (files_fs healthy_files) (english_language_pack segment_paths t))
        (found_toolsets (snd (resolve segment_paths (files_fs healthy_files) [vs2017, vs2015])))
   \<and> map_option dumpbin (candidate segment_paths (files_fs machine_files) vs2015)
       = Some [''C:'', ''VS14'', ''VC'', ''bin'', ''dumpbin.exe'']
   \<and> \<not> exists (files_fs machine_files)
          (english_language_pack segment_paths (the (candidate segment_paths (files_fs machine_files) vs2015)))
   \<and> excluded_toolsets (snd (process_instance segment_paths (files_fs machine_files) False vs2015 initial_resolution))
       = excluded_toolsets initial_resolution @ [the (candidate segment_paths (files_fs machine_files) vs2015)]
   \<and> found_toolsets (snd (process_instance segment_paths (files_fs machine_files) False vs2015 initial_resolution))
       = found_toolsets initial_resolution"
proof -
  have n: "length (found_toolsets (snd (resolve segment_paths (files_fs healthy_files) [vs2017, vs2015]))) = 3"
    by code_simp
  have c: "map_option dumpbin (candidate segment_paths (files_fs machine_files) vs2015)
       = Some [''C:'', ''VS14'', ''VC'', ''bin'', ''dumpbin.exe'']"
    by code_simp
  then obtain t where t: "candidate segment_paths (files_fs machine_files) vs2015 = Some t"
    by auto
  have e: "\<not> exists (files_fs machine_files)
          (english_language_pack segment_paths (the (candidate segment_paths (files_fs machine_files) vs2015)))"
    by code_simp
  note inst = found_toolsets_have_their_files
    [where P = segment_paths and i = vs2015 and c = t and v = False and st = initial_resolution]
  from inst [of "files_fs machine_files"] t e
  have routed_to_excluded:
    "excluded_toolsets (snd (process_instance segment_paths (files_fs machine_files) False vs2015 initial_resolution))
       = excluded_toolsets initial_resolution @ [t]"
    "found_toolsets (snd (process_instance segment_paths (files_fs machine_files) False vs2015 initial_resolution))
       = found_toolsets initial_resolution"
    by simp_all
  from found_toolsets_have_their_files [of segment_paths "files_fs healthy_files" "[vs2017, vs2015]"]
  have "list_all (\<lambda>t. exists (files_fs healthy_files) (vcvarsall t)
                    \<and> exists (files_fs healthy_files) (dumpbin t)
                    \<and> exists (files_fs healthy_files) (english_language_pack segment_paths t))
        (found_toolsets (snd (resolve segment_paths (files_fs healthy_files) [vs2017, vs2015])))"
    by (simp add: list_all_iff)
  with n c e routed_to_excluded t show ?thesis
    by simp
qed

subsection \<open>C3: a modern instance without its English folder is skipped, the loop goes on\<close>

text \<open>
  C3, as stated, asks nothing of the environment-setup script. A modern instance whose
  \<open>vcvarsall.bat\<close> is missing is left at line 158, before any toolchain-version
  subdirectory is looked at: the only subdirectory holds \<open>dumpbin.exe\<close> and has no
  \<open>1033\<close> folder, and nothing is recorded in \<open>excluded\<close>.
\<close>

theorem modern_without_vcvarsall_counterexample:
  "major_version vs2017 = ''15''
   \<and> msvc_subdirectories segment_paths (files_fs bare_files) (slash segment_paths (root_path vs2017) ''VC'')
       = [[''C:'', ''VS2017'', ''VC'', ''Tools'', ''MSVC'', ''14.16.27023'']]
   \<and> exists (files_fs bare_files)
        (msvc_dumpbin segment_paths [''C:'', ''VS2017'', ''VC'', ''Tools'', ''MSVC'', ''14.16.27023''])
   \<and> \<not> exists (files_fs bare_files)
        (slash segment_paths
           (parent_path segment_paths
              (msvc_dumpbin segment_paths [''C:'', ''VS2017'', ''VC'', ''Tools'', ''MSVC'', ''14.16.27023'']))
           ''1033'')
   \<and> excluded_toolsets
        (snd (process_instance segment_paths (files_fs bare_files) False vs2017 initial_resolution)) = []"
  by code_simp

text \<open>
  C3, amended. For a modern instance (major version "15") whose \<open>vcvarsall.bat\<close>
  exists: if the first toolchain-version subdirectory, in the sorted order, that holds
  \<open>dumpbin.exe\<close> has no \<open>1033\<close> folder, the pass records \<open>vcvarsall.bat\<close> and the
  \<open>dumpbin.exe\<close> paths up to that subdirectory as probed, appends the candidate to
  \<open>excluded\<close>, looks at no later subdirectory, leaves \<open>found\<close> as it is, and the loop
  goes on with the next ranked instance.
\<close>

theorem modern_missing_locale_skips_instance:
  assumes "major_version i = ''15''"
    and "exists fs (path_join P (root_path i) [''VC'', ''Auxiliary'', ''Build'', ''vcvarsall.bat''])"
    and "msvc_subdirectories P fs (slash P (root_path i) ''VC'') = pre @ s # post"
    and "\<forall>d\<in>set pre. \<not> exists fs (msvc_dumpbin P d)"
    and "exists fs (msvc_dumpbin P s)"
    and "\<not> exists fs (slash P (parent_path P (msvc_dumpbin P s)) ''1033'')"
  shows "process_instance P fs v i st =
     (Continue,
      st\<lparr>paths_examined := paths_examined st
            @ [path_join P (root_path i) [''VC'', ''Auxiliary'', ''Build'', ''vcvarsall.bat'']]
            @ map (msvc_dumpbin P) pre @ [msvc_dumpbin P s],
         excluded_toolsets := excluded_toolsets st
            @ [\<lparr>visual_studio_root_path = root_path i, dumpbin = msvc_dumpbin P s,
                 vcvarsall = path_join P (root_path i) [''VC'', ''Auxiliary'', ''Build'', ''vcvarsall.bat''],
                 vcvarsall_options = [], toolset_version = V_141,
                 supported_architectures =
                   supported_by P fs (path_join P (root_path i) [''VC'', ''Auxiliary'', ''Build''])
                     modern_arch_table\<rparr>]\<rparr>)
   \<and> resolve_loop P fs v (i # rest) st =
       resolve_loop P fs v rest (snd (process_instance P fs v i st))"
proof -
  let ?bat = "path_join P (root_path i) [''VC'', ''Auxiliary'', ''Build'', ''vcvarsall.bat'']"
  let ?archs = "supported_by P fs (path_join P (root_path i) [''VC'', ''Auxiliary'', ''Build'']) modern_arch_table"
  let ?st1 = "st\<lparr>paths_examined := paths_examined st @ [?bat]\<rparr>"
  have pass: "process_instance P fs v i st =
      (Continue, scan_msvc_subdirectories P fs v (root_path i) ?bat ?archs (pre @ s # post) ?st1)"
    using assms(1,2) assms(3) [symmetric]
    by (simp add: process_instance_def Let_def path_join_def push_examined_def)
  have "scan_msvc_subdirectories P fs v (root_path i) ?bat ?archs (pre @ s # post) ?st1 =
        scan_msvc_subdirectories P fs v (root_path i) ?bat ?archs (s # post)
          (?st1\<lparr>paths_examined := paths_examined ?st1 @ map (msvc_dumpbin P) pre\<rparr>)"
    by (rule scan_skip [OF assms(4)])
  also have "\<dots> =
      st\<lparr>paths_examined := paths_examined st @ [?bat] @ map (msvc_dumpbin P) pre @ [msvc_dumpbin P s],
         excluded_toolsets := excluded_toolsets st
            @ [\<lparr>visual_studio_root_path = root_path i, dumpbin = msvc_dumpbin P s,
                 vcvarsall = ?bat, vcvarsall_options = [], toolset_version = V_141,
                 supported_architectures = ?archs\<rparr>]\<rparr>"
    by (subst scan_match_excluded [OF assms(5,6)]) simp
  finally have scan: "scan_msvc_subdirectories P fs v (root_path i) ?bat ?archs (pre @ s # post) ?st1 =
      st\<lparr>paths_examined := paths_examined st @ [?bat] @ map (msvc_dumpbin P) pre @ [msvc_dumpbin P s],
         excluded_toolsets := excluded_toolsets st
            @ [\<lparr>visual_studio_root_path = root_path i, dumpbin = msvc_dumpbin P s,
                 vcvarsall = ?bat, vcvarsall_options = [], toolset_version = V_141,
                 supported_architectures = ?archs\<rparr>]\<rparr>" .
  show ?thesis
    by (simp add: pass scan)
qed

text \<open>
  On the sample machine: the later toolchain version of Visual Studio 2017 has no English
  folder; the earlier, complete one is never looked at, and Visual Studio 2013 is
  resolved next.
\<close>

theorem modern_missing_locale_skips_instance_witness:
  "major_version vs2017 = ''15''
   \<and> msvc_subdirectories segment_paths (files_fs machine_files) (slash segment_paths (root_path vs2017) ''VC'')
       = [] @ [''C:'', ''VS2017'', ''VC'', ''Tools'', ''MSVC'', ''14.16.27023'']
            # [[''C:'', ''VS2017'', ''VC'', ''Tools'', ''MSVC'', ''14.10.25017'']]
   \<and> fst (process_instance segment_paths (files_fs machine_files) True vs2017 initial_resolution) = Continue
   \<and> paths_examined (snd (process_instance segment_paths (files_fs machine_files) True vs2017 initial_resolution))
       = [[''C:'', ''VS2017'', ''VC'', ''Auxiliary'', ''Build'', ''vcvarsall.bat''],
          [''C:'', ''VS2017'', ''VC'', ''Tools'', ''MSVC'', ''14.16.27023'', ''bin'', ''HostX86'', ''x86'', ''dumpbin.exe'']]
   \<and> found_toolsets (snd (process_instance segment_paths (files_fs machine_files) True vs2017 initial_resolution)) = []
   \<and> map dumpbin
        (excluded_toolsets (snd (process_instance segment_paths (files_fs machine_files) True vs2017 initial_resolution)))
       = [[''C:'', ''VS2017'', ''VC'', ''Tools'', ''MSVC'', ''14.16.27023'', ''bin'', ''HostX86'', ''x86'', ''dumpbin.exe'']]
   \<and> resolve_loop segment_paths (files_fs machine_files) True [vs2017, vs2013] initial_resolution
       = resolve_loop segment_paths (files_fs machine_files) True [vs2013]
           (snd (process_instance segment_paths (files_fs machine_files) True vs2017 initial_resolution))"
proof -
  have a: "major_version vs2017 = ''15''"
    by code_simp
  have b: "exists (files_fs machine_files)
             (path_join segment_paths (root_path vs2017) [''VC'', ''Auxiliary'', ''Build'', ''vcvarsall.bat''])"
    by code_simp
  have c: "msvc_subdirectories segment_paths (files_fs machine_files) (slash segment_paths (root_path vs2017) ''VC'')
       = [] @ [''C:'', ''VS2017'', ''VC'', ''Tools'', ''MSVC'', ''14.16.27023'']
            # [[''C:'', ''VS2017'', ''VC'', ''Tools'', ''MSVC'', ''14.10.25017'']]"
    by code_simp
  have d: "\<forall>d\<in>set []. \<not> exists (files_fs machine_files) (msvc_dumpbin segment_paths d)"
    by simp
  have e: "exists (files_fs machine_files)
             (msvc_dumpbin segment_paths [''C:'', ''VS2017'', ''VC'', ''Tools'', ''MSVC'', ''14.16.27023''])"
    by code_simp
  have f: "\<not> exists (files_fs machine_files)
             (slash segment_paths
                (parent_path segment_paths
                   (msvc_dumpbin segment_paths [''C:'', ''VS2017'', ''VC'', ''Tools'', ''MSVC'', ''14.16.27023'']))
                ''1033'')"
    by code_simp
  note t = modern_missing_locale_skips_instance [OF a b c d e f, of True initial_resolution "[vs2013]"]
  have g: "msvc_dumpbin segment_paths [''C:'', ''VS2017'', ''VC'', ''Tools'', ''MSVC'', ''14.16.27023'']
      = [''C:'', ''VS2017'', ''VC'', ''Tools'', ''MSVC'', ''14.16.27023'', ''bin'', ''HostX86'', ''x86'', ''dumpbin.exe'']"
    by code_simp
  have h: "path_join segment_paths (root_path vs2017) [''VC'', ''Auxiliary'', ''Build'', ''vcvarsall.bat'']
      = [''C:'', ''VS2017'', ''VC'', ''Auxiliary'', ''Build'', ''vcvarsall.bat'']"
    by code_simp
  show ?thesis
    using a c t by (simp add: initial_resolution_def g h)
qed

subsection \<open>C4: the ranking\<close>

lemma weight_inject: "get_preference_weight s = get_preference_weight t \<longleftrightarrow> s = t"
  by (cases s; cases t) simp_all

lemma ranked_before_iff: "ranked_before a b \<longleftrightarrow> \<not> preferred_first_comparator b a"
  by (auto simp add: ranked_before_def preferred_first_comparator_def weight_inject not_less
        order.strict_iff_order)

lemma ranked_before_trans: "ranked_before a b \<Longrightarrow> ranked_before b c \<Longrightarrow> ranked_before a c"
  by (auto simp add: ranked_before_def)

lemma comparator_asym: "preferred_first_comparator a b \<Longrightarrow> ranked_before a b"
  by (auto simp add: ranked_before_def preferred_first_comparator_def weight_inject split: if_splits)

lemma mset_insert_sorted: "mset (insert_sorted cmp x ys) = add_mset x (mset ys)"
  by (induction ys) simp_all

lemma set_insert_sorted: "set (insert_sorted cmp x ys) = insert x (set ys)"
  by (induction ys) auto

lemma mset_SortedVector: "mset (SortedVector v cmp) = mset v"
  unfolding SortedVector_def by (induction v) (simp_all add: mset_insert_sorted)

lemma sorted_insert_sorted:
  assumes "sorted_wrt ranked_before ys"
  shows "sorted_wrt ranked_before (insert_sorted preferred_first_comparator x ys)"
  using assms
proof (induction ys)
  case Nil
  then show ?case by simp
next
  case (Cons y ys)
  show ?case
  proof (cases "preferred_first_comparator y x")
    case True
    then have "ranked_before y x" by (rule comparator_asym)
    with Cons True show ?thesis
      by (auto simp add: set_insert_sorted)
  next
    case False
    then have xy: "ranked_before x y" by (simp add: ranked_before_iff)
    then have "\<forall>z\<in>set ys. ranked_before x z"
      using Cons.prems by (auto intro: ranked_before_trans)
    with Cons.prems xy False show ?thesis by simp
  qed
qed

lemma sorted_SortedVector: "sorted_wrt ranked_before (SortedVector v preferred_first_comparator)"
  unfolding SortedVector_def by (induction v) (simp_all add: sorted_insert_sorted)

lemma filter_insert_sorted:
  assumes "\<And>y. p y \<Longrightarrow> p x \<Longrightarrow> \<not> cmp y x"
  shows "filter p (insert_sorted cmp x ys) = (if p x then x # filter p ys else filter p ys)"
  using assms by (induction ys) auto

lemma same_key_not_preferred:
  assumes "release_type y = t \<and> version y = ver" and "release_type x = t \<and> version x = ver"
  shows "\<not> preferred_first_comparator y x"
  using assms by (simp add: preferred_first_comparator_def)

lemma filter_SortedVector:
  "filter (\<lambda>i. release_type i = t \<and> version i = ver) (SortedVector v preferred_first_comparator)
     = filter (\<lambda>i. release_type i = t \<and> version i = ver) v"
  unfolding SortedVector_def
proof (induction v)
  case Nil
  then show ?case by simp
next
  case (Cons x v)
  have "filter (\<lambda>i. release_type i = t \<and> version i = ver)
          (insert_sorted preferred_first_comparator x (foldr (insert_sorted preferred_first_comparator) v []))
        = (if release_type x = t \<and> version x = ver
           then x # filter (\<lambda>i. release_type i = t \<and> version i = ver)
                      (foldr (insert_sorted preferred_first_comparator) v [])
           else filter (\<lambda>i. release_type i = t \<and> version i = ver)
                  (foldr (insert_sorted preferred_first_comparator) v []))"
    by (rule filter_insert_sorted) (rule same_key_not_preferred)
  with Cons show ?case by simp
qed

text \<open>
  C4. The ranked list is a rearrangement of the discovered instances; of any two of its
  entries the one in front has the heavier tier (Stable over Prerelease over Legacy) or
  the same tier and a version text that is lexicographically not smaller; and the
  instances with one tier and one version text stand in their order of discovery.
\<close>

theorem ranking_is_stable_preferred_first:
  "mset (SortedVector v preferred_first_comparator) = mset v
   \<and> sorted_wrt ranked_before (SortedVector v preferred_first_comparator)
   \<and> filter (\<lambda>i. release_type i = t \<and> version i = ver) (SortedVector v preferred_first_comparator)
       = filter (\<lambda>i. release_type i = t \<and> version i = ver) v"
  by (simp add: mset_SortedVector sorted_SortedVector filter_SortedVector)

text \<open>
  Six discovered instances: the stable ones come first by version, then the prerelease,
  then the legacy ones by version, the two equal ones in their order of discovery.
\<close>

theorem ranking_is_stable_preferred_first_witness:
  "SortedVector [vs2015_a, vs2013, vs2017_preview, vs2015_b, vs2017, vs2019] preferred_first_comparator
     = [vs2019, vs2017, vs2017_preview, vs2015_a, vs2015_b, vs2013]
   \<and> sorted_wrt ranked_before [vs2019, vs2017, vs2017_preview, vs2015_a, vs2015_b, vs2013]
   \<and> filter (\<lambda>i. release_type i = LEGACY \<and> version i = ''14.0'')
        [vs2019, vs2017, vs2017_preview, vs2015_a, vs2015_b, vs2013] = [vs2015_a, vs2015_b]"
proof -
  have s: "SortedVector [vs2015_a, vs2013, vs2017_preview, vs2015_b, vs2017, vs2019] preferred_first_comparator
     = [vs2019, vs2017, vs2017_preview, vs2015_a, vs2015_b, vs2013]"
    by code_simp
  have f: "filter (\<lambda>i. release_type i = LEGACY \<and> version i = ''14.0'')
             [vs2015_a, vs2013, vs2017_preview, vs2015_b, vs2017, vs2019] = [vs2015_a, vs2015_b]"
    by code_simp
  from ranking_is_stable_preferred_first
    [of "[vs2015_a, vs2013, vs2017_preview, vs2015_b, vs2017, vs2019]" LEGACY "''14.0''"]
  show ?thesis
    unfolding s f by simp
qed

subsection \<open>C5: the second toolset of a modern instance\<close>

lemma list_ex_major:
  "v140_is_available xs \<longleftrightarrow> (\<exists>j\<in>set xs. major_version j = ''14'')"
  by (simp add: v140_is_available_def list_ex_iff)

text \<open>
  C5. When the pass for a modern instance (major version "15") adds to \<open>found\<close>, it
  adds a toolset \<open>t\<close> tagged "v141" with no extra argument; if some instance of the
  ranked list has major version "14", it adds right behind it the same toolset (same
  root, \<open>dumpbin.exe\<close>, \<open>vcvarsall.bat\<close> and architectures) tagged "v140" with the one
  argument \<open>-vcvars_ver=14.0\<close>; otherwise it adds \<open>t\<close> alone.
\<close>

theorem v140_toolset_follows_v141:
  assumes "major_version i = ''15''"
    and "found_toolsets (snd (process_instance P fs (v140_is_available xs) i st)) \<noteq> found_toolsets st"
  shows "\<exists>t. visual_studio_root_path t = root_path i \<and> toolset_version t = V_141
             \<and> vcvarsall_options t = []
             \<and> found_toolsets (snd (process_instance P fs (v140_is_available xs) i st)) =
                 found_toolsets st
                 @ (if \<exists>j\<in>set xs. major_version j = ''14''
                    then [t, t\<lparr>vcvarsall_options := [''-vcvars_ver=14.0''], toolset_version := V_140\<rparr>]
                    else [t])"
proof (cases "candidate P fs i")
  case None
  with assms(2) show ?thesis
    by (simp add: found_process_instance)
next
  case (Some t)
  with assms(2) have found: "found_toolsets (snd (process_instance P fs (v140_is_available xs) i st)) =
      found_toolsets st @ emitted (v140_is_available xs) i t"
    by (simp add: found_process_instance split: if_splits)
  from Some assms(1) have t: "visual_studio_root_path t = root_path i" "toolset_version t = V_141"
      "vcvarsall_options t = []"
    by (auto simp add: candidate_def split: if_splits option.splits)
  show ?thesis
    using found t assms(1)
    by (intro exI [of _ t]) (simp add: emitted_def list_ex_major)
qed

text \<open>
  On the healthy machine: beside Visual Studio 2015 the 2017 instance yields "v141" and
  "v140", beside Visual Studio 2013 only "v141".
\<close>

theorem v140_toolset_follows_v141_witness:
  "major_version vs2017 = ''15''
   \<and> found_toolsets (snd (process_instance segment_paths (files_fs healthy_files)
                              (v140_is_available [vs2017, vs2015]) vs2017 initial_resolution))
       \<noteq> found_toolsets initial_resolution
   \<and> map toolset_version
        (found_toolsets (snd (process_instance segment_paths (files_fs healthy_files)
                                (v140_is_available [vs2017, vs2015]) vs2017 initial_resolution)))
       = [''v141'', ''v140'']
   \<and> map vcvarsall_options
        (found_toolsets (snd (process_instance segment_paths (files_fs healthy_files)
                                (v140_is_available [vs2017, vs2015]) vs2017 initial_resolution)))
       = [[], [''-vcvars_ver=14.0'']]
   \<and> map toolset_version
        (found_toolsets (snd (process_instance segment_paths (files_fs healthy_files)
                                (v140_is_available [vs2017, vs2013]) vs2017 initial_resolution)))
       = [''v141'']"
proof -
  have a: "major_version vs2017 = ''15''"
    by code_simp
  have b: "found_toolsets (snd (process_instance segment_paths (files_fs healthy_files)
                              (v140_is_available [vs2017, vs2015]) vs2017 initial_resolution))
       \<noteq> found_toolsets initial_resolution"
    by code_simp
  have c: "\<exists>j\<in>set [vs2017, vs2015]. major_version j = ''14''"
    by code_simp
  have b': "found_toolsets (snd (process_instance segment_paths (files_fs healthy_files)
                              (v140_is_available [vs2017, vs2013]) vs2017 initial_resolution))
       \<noteq> found_toolsets initial_resolution"
    by code_simp
  have c': "\<not> (\<exists>j\<in>set [vs2017, vs2013]. major_version j = ''14'')"
    by code_simp
  from v140_toolset_follows_v141 [OF a b] c v140_toolset_follows_v141 [OF a b'] c'
  show ?thesis
    using a b by (auto simp add: initial_resolution_def V_141_def V_140_def)
qed

subsection \<open>C6: the tier of an instance record\<close>

lemma instances_of_entries_Inr:
  assumes "instances_of_entries P sr entries acc = Inr r"
  shows "\<exists>js. r = acc @ js \<and> list_all2 (\<lambda>e i. instance_of_entry P sr e = Inr i) entries js"
  using assms
proof (induction entries arbitrary: acc)
  case Nil
  then show ?case by simp
next
  case (Cons e entries)
  from Cons.prems obtain i where i: "instance_of_entry P sr e = Inr i"
    and rest: "instances_of_entries P sr entries (acc @ [i]) = Inr r"
    by (auto split: sum.splits)
  from Cons.IH [OF rest] obtain js where "r = (acc @ [i]) @ js"
    and "list_all2 (\<lambda>e i. instance_of_entry P sr e = Inr i) entries js"
    by blast
  with i show ?case
    by (intro exI [of _ "i # js"]) simp
qed

text \<open>
  C6. For an instance record whose prerelease flag is read as \<open>flag\<close>: when the flag is
  absent, "0" or "1", the record yields an instance (if its path and version are read)
  of tier Legacy, Stable or Prerelease respectively; for any other flag the pass ends in
  \<open>Checks::unreachable\<close>, before the path and the version are read, and so does the loop
  over the records: no instance and no \<open>check_exit\<close> message. Every instance the loop
  returns comes from its record in this way.
\<close>

theorem tier_of_prerelease_flag:
  assumes "find_at_most_one_enclosed sr inst ''<isPrerelease>'' ''</isPrerelease>'' = Inr flag"
  shows "instance_of_entry P sr inst =
     (if flag = None \<or> flag = Some ''0'' \<or> flag = Some ''1'' then
        (case find_exactly_one_enclosed sr inst ''<installationPath>'' ''</installationPath>'' of
           Inl e \<Rightarrow> Inl e
         | Inr path \<Rightarrow>
            (case find_exactly_one_enclosed sr inst ''<installationVersion>'' ''</installationVersion>'' of
               Inl e \<Rightarrow> Inl e
             | Inr ver \<Rightarrow>
                 Inr \<lparr>root_path = from_string P path, version = ver,
                      release_type = (if flag = None then LEGACY
                                      else if flag = Some ''0'' then STABLE else PRERELEASE)\<rparr>))
      else Inl Unreachable)
   \<and> (flag \<noteq> None \<and> flag \<noteq> Some ''0'' \<and> flag \<noteq> Some ''1'' \<longrightarrow>
        instances_of_entries P sr (inst # rest) acc = Inl Unreachable)
   \<and> (instances_of_entries P sr entries acc = Inr r \<longrightarrow>
        (\<exists>js. r = acc @ js \<and> list_all2 (\<lambda>e i. instance_of_entry P sr e = Inr i) entries js))"
proof (intro conjI impI)
  show first: "instance_of_entry P sr inst =
     (if flag = None \<or> flag = Some ''0'' \<or> flag = Some ''1'' then
        (case find_exactly_one_enclosed sr inst ''<installationPath>'' ''</installationPath>'' of
           Inl e \<Rightarrow> Inl e
         | Inr path \<Rightarrow>
            (case find_exactly_one_enclosed sr inst ''<installationVersion>'' ''</installationVersion>'' of
               Inl e \<Rightarrow> Inl e
             | Inr ver \<Rightarrow>
                 Inr \<lparr>root_path = from_string P path, version = ver,
                      release_type = (if flag = None then LEGACY
                                      else if flag = Some ''0'' then STABLE else PRERELEASE)\<rparr>))
      else Inl Unreachable)"
    using assms
    by (cases flag) (simp_all add: instance_of_entry_def split: sum.splits)
  assume "flag \<noteq> None \<and> flag \<noteq> Some ''0'' \<and> flag \<noteq> Some ''1''"
  with first show "instances_of_entries P sr (inst # rest) acc = Inl Unreachable"
    by simp
next
  assume "instances_of_entries P sr entries acc = Inr r"
  then show "\<exists>js. r = acc @ js \<and> list_all2 (\<lambda>e i. instance_of_entry P sr e = Inr i) entries js"
    by (rule instances_of_entries_Inr)
qed

text \<open>The three sample records: Stable, Legacy, and the abort.\<close>

theorem tier_of_prerelease_flag_witness:
  "find_at_most_one_enclosed simple_ranges stable_record ''<isPrerelease>'' ''</isPrerelease>'' = Inr (Some ''0'')
   \<and> instance_of_entry segment_paths simple_ranges stable_record
       = Inr \<lparr>root_path = [''VS2017''], version = ''15.9.28307.1000'', release_type = STABLE\<rparr>
   \<and> find_at_most_one_enclosed simple_ranges legacy_record ''<isPrerelease>'' ''</isPrerelease>'' = Inr None
   \<and> instance_of_entry segment_paths simple_ranges legacy_record
       = Inr \<lparr>root_path = [''VS14''], version = ''14.0'', release_type = LEGACY\<rparr>
   \<and> find_at_most_one_enclosed simple_ranges odd_record ''<isPrerelease>'' ''</isPrerelease>'' = Inr (Some ''2'')
   \<and> instance_of_entry segment_paths simple_ranges odd_record = Inl Unreachable
   \<and> instances_of_entries segment_paths simple_ranges [odd_record, stable_record] [] = Inl Unreachable"
proof -
  have a: "find_at_most_one_enclosed simple_ranges stable_record ''<isPrerelease>'' ''</isPrerelease>'' = Inr (Some ''0'')"
    by code_simp
  have b: "find_at_most_one_enclosed simple_ranges legacy_record ''<isPrerelease>'' ''</isPrerelease>'' = Inr None"
    by code_simp
  have c: "find_at_most_one_enclosed simple_ranges odd_record ''<isPrerelease>'' ''</isPrerelease>'' = Inr (Some ''2'')"
    by code_simp
  have p1: "find_exactly_one_enclosed simple_ranges stable_record ''<installationPath>'' ''</installationPath>'' = Inr ''VS2017''"
    by code_simp
  have v1: "find_exactly_one_enclosed simple_ranges stable_record ''<installationVersion>'' ''</installationVersion>'' = Inr ''15.9.28307.1000''"
    by code_simp
  have p2: "find_exactly_one_enclosed simple_ranges legacy_record ''<installationPath>'' ''</installationPath>'' = Inr ''VS14''"
    by code_simp
  have v2: "find_exactly_one_enclosed simple_ranges legacy_record ''<installationVersion>'' ''</installationVersion>'' = Inr ''14.0''"
    by code_simp
  have s1: "from_string segment_paths ''VS2017'' = [''VS2017'']" and s2: "from_string segment_paths ''VS14'' = [''VS14'']"
    by code_simp+
  from tier_of_prerelease_flag [OF a, of segment_paths]
       tier_of_prerelease_flag [OF b, of segment_paths]
       tier_of_prerelease_flag [OF c, of segment_paths "[stable_record]" "[]"]
  show ?thesis
    by (simp add: a b c p1 v1 p2 v2 s1 s2)
qed

subsection \<open>C7: no toolset found\<close>

text \<open>
  C7. When the loop leaves \<open>found\<close> empty, whether it ran to its end or was left by the
  \<open>break\<close>, the function prints the warning about the excluded instances (if any), the
  two error lines and then one line for every probed path, in order, and ends the process
  by \<open>Checks::exit_fail\<close>; when \<open>found\<close> is not empty it returns \<open>found\<close>. So, once the
  instances are enumerated, the failing exit happens exactly when \<open>found\<close> is empty.
\<close>

theorem no_toolset_is_fatal:
  "(get_visual_studio_instances P fs sys sr = Inr instances
      \<and> resolve P fs (SortedVector instances preferred_first_comparator) = (c, st)
      \<and> found_toolsets st = [] \<longrightarrow>
      find_toolset_instances_preferred_first P fs sys sr =
        (print_excluded P st
           @ [(Some Color_error, ''Could not locate a complete toolset.''),
              (None, ''The following paths were examined:'')]
           @ map (\<lambda>path. (None, ''    '' @ u8string P path)) (paths_examined st),
         Inl Exit_Fail))
   \<and> (get_visual_studio_instances P fs sys sr = Inr instances
      \<and> resolve P fs (SortedVector instances preferred_first_comparator) = (c, st)
      \<and> found_toolsets st \<noteq> [] \<longrightarrow>
      find_toolset_instances_preferred_first P fs sys sr = (print_excluded P st, Inr (found_toolsets st)))
   \<and> (get_visual_studio_instances P fs sys sr = Inr instances \<longrightarrow>
       (snd (find_toolset_instances_preferred_first P fs sys sr) = Inl Exit_Fail
          \<longleftrightarrow> found_toolsets (snd (resolve P fs (SortedVector instances preferred_first_comparator))) = []))"
  by (simp add: find_toolset_instances_preferred_first_def report_def print_examined_def)

text \<open>
  On the sample machine the environment variable leads to Visual Studio 2015, which has
  no English folder: the loop is left by the \<open>break\<close>, and the two probed paths are
  printed. On an empty machine the loop runs to its end and no path is printed.
\<close>

theorem no_toolset_is_fatal_witness:
  "get_visual_studio_instances segment_paths (files_fs machine_files) sample_system simple_ranges = Inr [vs2015]
   \<and> fst (resolve segment_paths (files_fs machine_files) (SortedVector [vs2015] preferred_first_comparator)) = Break
   \<and> snd (find_toolset_instances_preferred_first segment_paths (files_fs machine_files) sample_system simple_ranges)
       = Inl Exit_Fail
   \<and> map snd (drop 5 (fst (find_toolset_instances_preferred_first segment_paths (files_fs machine_files)
                              sample_system simple_ranges)))
       = [''    '' @ join_segments [''C:'', ''VS14'', ''VC'', ''vcvarsall.bat''],
          ''    '' @ join_segments [''C:'', ''VS14'', ''VC'', ''bin'', ''dumpbin.exe'']]
   \<and> find_toolset_instances_preferred_first segment_paths (files_fs []) sample_system simple_ranges
       = ([(Some Color_error, ''Could not locate a complete toolset.''),
           (None, ''The following paths were examined:'')], Inl Exit_Fail)"
proof -
  have a: "get_visual_studio_instances segment_paths (files_fs machine_files) sample_system simple_ranges = Inr [vs2015]"
    by code_simp
  have f: "fst (resolve segment_paths (files_fs machine_files) (SortedVector [vs2015] preferred_first_comparator)) = Break"
    by code_simp
  have b: "resolve segment_paths (files_fs machine_files) (SortedVector [vs2015] preferred_first_comparator)
      = (Break, snd (resolve segment_paths (files_fs machine_files) (SortedVector [vs2015] preferred_first_comparator)))"
    by (simp add: prod_eq_iff f)
  have c: "found_toolsets (snd (resolve segment_paths (files_fs machine_files)
              (SortedVector [vs2015] preferred_first_comparator))) = []"
    by code_simp
  have d: "paths_examined (snd (resolve segment_paths (files_fs machine_files)
              (SortedVector [vs2015] preferred_first_comparator)))
       = [[''C:'', ''VS14'', ''VC'', ''vcvarsall.bat''], [''C:'', ''VS14'', ''VC'', ''bin'', ''dumpbin.exe'']]"
    by code_simp
  have e: "print_excluded segment_paths (snd (resolve segment_paths (files_fs machine_files)
              (SortedVector [vs2015] preferred_first_comparator)))
       = [(Some Color_warning,
           ''Warning: The following VS instances are excluded because the English language pack is unavailable.''),
          (None, ''    '' @ join_segments [''C:'', ''VS14'']),
          (Some Color_warning, ''Please install the English language pack.'')]"
    by code_simp
  have a': "get_visual_studio_instances segment_paths (files_fs []) sample_system simple_ranges = Inr []"
    by code_simp
  have b': "resolve segment_paths (files_fs []) (SortedVector [] preferred_first_comparator)
      = (Continue, initial_resolution)"
    by code_simp
  have u: "u8string segment_paths = join_segments"
    by (simp add: segment_paths_def)
  from no_toolset_is_fatal [of segment_paths "files_fs machine_files" sample_system simple_ranges "[vs2015]" Break
         "snd (resolve segment_paths (files_fs machine_files) (SortedVector [vs2015] preferred_first_comparator))"]
       a b c
  have r1: "find_toolset_instances_preferred_first segment_paths (files_fs machine_files) sample_system simple_ranges =
        (print_excluded segment_paths (snd (resolve segment_paths (files_fs machine_files)
              (SortedVector [vs2015] preferred_first_comparator)))
           @ [(Some Color_error, ''Could not locate a complete toolset.''),
              (None, ''The following paths were examined:'')]
           @ map (\<lambda>path. (None, ''    '' @ u8string segment_paths path))
               (paths_examined (snd (resolve segment_paths (files_fs machine_files)
                  (SortedVector [vs2015] preferred_first_comparator)))),
         Inl Exit_Fail)"
    by simp
  from no_toolset_is_fatal [of segment_paths "files_fs []" sample_system simple_ranges "[]" Continue
         initial_resolution] a' b'
  have r2: "find_toolset_instances_preferred_first segment_paths (files_fs []) sample_system simple_ranges
       = ([(Some Color_error, ''Could not locate a complete toolset.''),
           (None, ''The following paths were examined:'')], Inl Exit_Fail)"
    by (simp add: initial_resolution_def print_excluded_def)
  show ?thesis
    using a f by (simp add: r1 r2 d e u)
qed

subsection \<open>C8: the query tool\<close>

text \<open>
  C8. With the program-files root resolved: if \<open>vswhere.exe\<close> exists and its run returns
  a non-zero exit code, the enumeration ends in \<open>Checks::check_exit\<close> with the message
  that carries the captured output, and so does the whole function, which prints nothing
  and returns no toolset; if \<open>vswhere.exe\<close> does not exist, the block adds no instance,
  and the enumeration returns what the legacy probes find.
\<close>

theorem vswhere_failure_is_fatal:
  assumes "get_program_files_32_bit sys = Some pf"
  shows "(exists fs (vswhere_exe P pf)
          \<and> exit_code (cmd_execute_and_capture_output sys (vswhere_command P (vswhere_exe P pf))) \<noteq> 0 \<longrightarrow>
          get_visual_studio_instances P fs sys sr =
            Inl (Check_Exit (''Running vswhere.exe failed with message:'' @ [CHR 0x0A]
                   @ captured_output (cmd_execute_and_capture_output sys (vswhere_command P (vswhere_exe P pf)))))
          \<and> find_toolset_instances_preferred_first P fs sys sr =
            ([], Inl (Check_Exit (''Running vswhere.exe failed with message:'' @ [CHR 0x0A]
                   @ captured_output (cmd_execute_and_capture_output sys (vswhere_command P (vswhere_exe P pf)))))))
       \<and> (\<not> exists fs (vswhere_exe P pf) \<longrightarrow>
          instances_from_vswhere P fs sys sr pf instances = Inr instances
          \<and> get_visual_studio_instances P fs sys sr =
              Inr (append_if_has_cl P fs (slash P pf ''Microsoft Visual Studio 14.0'')
                     (instances_from_comntools P fs sys [])))"
  using assms
  by (simp add: get_visual_studio_instances_def instances_from_vswhere_def Let_def
        find_toolset_instances_preferred_first_def)

text \<open>
  A machine with the query tool only: when the tool fails the function ends with its
  output; without the tool the sample machine still yields Visual Studio 2015.
\<close>

theorem vswhere_failure_is_fatal_witness:
  "get_program_files_32_bit failing_system = Some [''C:'', ''PF'']
   \<and> exists (files_fs vswhere_only_files) (vswhere_exe segment_paths [''C:'', ''PF''])
   \<and> exit_code (cmd_execute_and_capture_output failing_system
                   (vswhere_command segment_paths (vswhere_exe segment_paths [''C:'', ''PF'']))) = 1
   \<and> find_toolset_instances_preferred_first segment_paths (files_fs vswhere_only_files) failing_system simple_ranges
       = ([], Inl (Check_Exit (''Running vswhere.exe failed with message:'' @ [CHR 0x0A] @ ''no such product'')))
   \<and> get_program_files_32_bit sample_system = Some [''C:'', ''PF'']
   \<and> \<not> exists (files_fs machine_files) (vswhere_exe segment_paths [''C:'', ''PF''])
   \<and> instances_from_vswhere segment_paths (files_fs machine_files) sample_system simple_ranges [''C:'', ''PF''] [] = Inr []
   \<and> get_visual_studio_instances segment_paths (files_fs machine_files) sample_system simple_ranges = Inr [vs2015]"
proof -
  have a: "get_program_files_32_bit failing_system = Some [''C:'', ''PF'']"
    by code_simp
  have b: "exists (files_fs vswhere_only_files) (vswhere_exe segment_paths [''C:'', ''PF''])"
    by code_simp
  have c: "cmd_execute_and_capture_output failing_system
             (vswhere_command segment_paths (vswhere_exe segment_paths [''C:'', ''PF'']))
           = \<lparr>exit_code = 1, captured_output = ''no such product''\<rparr>"
    by (simp add: failing_system_def)
  have a': "get_program_files_32_bit sample_system = Some [''C:'', ''PF'']"
    by code_simp
  have b': "\<not> exists (files_fs machine_files) (vswhere_exe segment_paths [''C:'', ''PF''])"
    by code_simp
  have d: "append_if_has_cl segment_paths (files_fs machine_files)
             (slash segment_paths [''C:'', ''PF''] ''Microsoft Visual Studio 14.0'')
             (instances_from_comntools segment_paths (files_fs machine_files) sample_system []) = [vs2015]"
    by code_simp
  from vswhere_failure_is_fatal [OF a, of "files_fs vswhere_only_files" segment_paths simple_ranges]
       vswhere_failure_is_fatal [OF a', of "files_fs machine_files" segment_paths simple_ranges "[]"]
  show ?thesis
    using a b a' b' by (simp add: c d)
qed

subsection \<open>C9: the legacy probes\<close>

lemma append_if_has_cl_eq:
  "append_if_has_cl P fs root instances = instances @ legacy_instance_if_has_cl P fs root"
  by (simp add: append_if_has_cl_def legacy_instance_if_has_cl_def Let_def)

text \<open>
  C9. When \<open>vs140comntools\<close> is set to \<open>s\<close>, the block for the environment variable
  tries two roots, the second and the third parent of the path \<open>s\<close>, in this order, and
  the enumeration then tries \<open>Microsoft Visual Studio 14.0\<close> under the program-files root;
  each of the three adds a Legacy instance with version "14.0" exactly when \<open>cl.exe\<close> and
  \<open>vcvarsall.bat\<close> both exist under it. They follow the instances of the query tool.
\<close>

theorem legacy_probes:
  assumes "get_environment_variable sys ''vs140comntools'' = Some s"
  shows "instances_from_comntools P fs sys instances =
           instances
           @ legacy_instance_if_has_cl P fs (parent_path P (parent_path P (from_string P s)))
           @ legacy_instance_if_has_cl P fs (parent_path P (parent_path P (parent_path P (from_string P s))))
       \<and> (get_program_files_32_bit sys = Some pf
            \<and> instances_from_vswhere P fs sys sr pf [] = Inr found_by_vswhere \<longrightarrow>
          get_visual_studio_instances P fs sys sr =
            Inr (found_by_vswhere
                 @ legacy_instance_if_has_cl P fs (parent_path P (parent_path P (from_string P s)))
                 @ legacy_instance_if_has_cl P fs (parent_path P (parent_path P (parent_path P (from_string P s))))
                 @ legacy_instance_if_has_cl P fs (slash P pf ''Microsoft Visual Studio 14.0'')))"
  using assms
  by (simp add: instances_from_comntools_def get_visual_studio_instances_def append_if_has_cl_eq)

text \<open>
  On the sample machine the variable ends in a backslash: the second parent is the
  folder \<open>Common7\<close>, which holds no compiler, and the third parent is the root of Visual
  Studio 2015, which does; the default folder under the program-files root is absent.
\<close>

theorem legacy_probes_witness:
  "get_environment_variable sample_system ''vs140comntools''
     = Some comntools_text
   \<and> parent_path segment_paths (parent_path segment_paths
        (from_string segment_paths comntools_text))
       = [''C:'', ''VS14'', ''Common7'']
   \<and> legacy_instance_if_has_cl segment_paths (files_fs machine_files) [''C:'', ''VS14'', ''Common7''] = []
   \<and> legacy_instance_if_has_cl segment_paths (files_fs machine_files) [''C:'', ''VS14'']
       = [\<lparr>root_path = [''C:'', ''VS14''], version = ''14.0'', release_type = LEGACY\<rparr>]
   \<and> instances_from_comntools segment_paths (files_fs machine_files) sample_system [vs2017]
       = [vs2017, \<lparr>root_path = [''C:'', ''VS14''], version = ''14.0'', release_type = LEGACY\<rparr>]
   \<and> get_visual_studio_instances segment_paths (files_fs machine_files) sample_system simple_ranges
       = Inr [\<lparr>root_path = [''C:'', ''VS14''], version = ''14.0'', release_type = LEGACY\<rparr>]"
proof -
  have a: "get_environment_variable sample_system ''vs140comntools''
     = Some comntools_text"
    by (simp add: sample_system_def)
  have p2: "parent_path segment_paths (parent_path segment_paths
        (from_string segment_paths comntools_text))
       = [''C:'', ''VS14'', ''Common7'']"
    by code_simp
  have p3: "parent_path segment_paths [''C:'', ''VS14'', ''Common7''] = [''C:'', ''VS14'']"
    by code_simp
  have l2: "legacy_instance_if_has_cl segment_paths (files_fs machine_files) [''C:'', ''VS14'', ''Common7''] = []"
    by code_simp
  have l3: "legacy_instance_if_has_cl segment_paths (files_fs machine_files) [''C:'', ''VS14'']
       = [\<lparr>root_path = [''C:'', ''VS14''], version = ''14.0'', release_type = LEGACY\<rparr>]"
    by code_simp
  have l4: "legacy_instance_if_has_cl segment_paths (files_fs machine_files)
              (slash segment_paths [''C:'', ''PF''] ''Microsoft Visual Studio 14.0'') = []"
    by code_simp
  have pf: "get_program_files_32_bit sample_system = Some [''C:'', ''PF'']"
    by code_simp
  have v: "instances_from_vswhere segment_paths (files_fs machine_files) sample_system simple_ranges
             [''C:'', ''PF''] [] = Inr []"
    by code_simp
  from legacy_probes [OF a, of segment_paths "files_fs machine_files" "[vs2017]" "[''C:'', ''PF'']" simple_ranges "[]"]
  show ?thesis
    using a pf v by (simp add: p2 p3 l2 l3 l4)
qed

subsection \<open>C10: instances of any other generation are passed over\<close>

text \<open>
  C10. An instance whose major version tag is none of "15", "14" and "12" leaves
  \<open>found\<close>, \<open>excluded\<close> and the probed paths as they are, and the loop goes on with
  the next instance.
\<close>

theorem other_generation_contributes_nothing:
  assumes "major_version i \<noteq> ''15''" and "major_version i \<noteq> ''14''" and "major_version i \<noteq> ''12''"
  shows "process_instance P fs v i st = (Continue, st)
       \<and> resolve_loop P fs v (i # rest) st = resolve_loop P fs v rest st"
  using assms by (simp add: process_instance_other)

text \<open>On the sample machine: an instance with version "16.0.1".\<close>

theorem other_generation_contributes_nothing_witness:
  "major_version vs2019 \<noteq> ''15'' \<and> major_version vs2019 \<noteq> ''14'' \<and> major_version vs2019 \<noteq> ''12''
   \<and> process_instance segment_paths (files_fs machine_files) True vs2019 initial_resolution
        = (Continue, initial_resolution)
   \<and> resolve_loop segment_paths (files_fs machine_files) True [vs2019, vs2013] initial_resolution
        = resolve_loop segment_paths (files_fs machine_files) True [vs2013] initial_resolution"
proof -
  have a: "major_version vs2019 \<noteq> ''15''" and b: "major_version vs2019 \<noteq> ''14''"
    and c: "major_version vs2019 \<noteq> ''12''"
    by (simp_all add: major_version_def vs2019_def)
  show ?thesis
    using other_generation_contributes_nothing [OF a b c] a b c by blast
qed

end
